theory Spec2Isabelle
  imports Complex_Main "HOL-Library.Log_Nat"
begin

text \<open>
  A shallow embedding of the query builder: the pagination calculator, the filter and
  sort processors, the performance monitor, the cache manager and the builder that
  composes them, each function translated from its TypeScript source. Mutable state is
  passed explicitly, an exception is a value of a sum type (\<open>Inl\<close>), and the clock,
  the console and the record store are the explicit \<open>world\<close>. The properties proved
  about the embedding follow the definitions and the concrete inputs.
\<close>

section \<open>JavaScript values\<close>

text \<open>
  A finite JavaScript number is a double, which is a rational: the numbers that reach the
  pagination code are rationals, \<open>Number.isInteger\<close> is membership in the integers and
  a comparison is exact. The result of an arithmetic operation is the exact result rounded
  to the nearest double, and it can leave the finite numbers, so it has the three special
  values. The two zeros are not told apart.
\<close>

type_synonym number = rat

datatype jsnum = Num rat | PosInfinity | NegInfinity | NaN

definition isInteger :: "number \<Rightarrow> bool" where
  "isInteger x = (of_int \<lfloor>x\<rfloor> = x)"

text \<open>
  The exponent of the leading bit of a positive number: \<open>2 powi floor_log2 x\<close> is the
  largest power of two that is at most \<open>x\<close>. (\<open>bitlen\<close> is the number of binary
  digits of an integer.)
\<close>

definition floor_log2 :: "rat \<Rightarrow> int" where
  "floor_log2 x = (if 1 \<le> x then bitlen \<lfloor>x\<rfloor> - 1 else - bitlen (\<lceil>1 / x\<rceil> - 1))"

text \<open>Rounding to the nearest integer, a tie going to the even one.\<close>

definition round_half_even :: "rat \<Rightarrow> int" where
  "round_half_even y =
     (let f = \<lfloor>y\<rfloor>; d = y - of_int f
      in if d < 1 / 2 then f else if 1 / 2 < d then f + 1 else if even f then f else f + 1)"

text \<open>
  Rounding to a double, as IEEE 754 has it: the number is rounded to a multiple of
  \<open>2 powi e\<close>, where \<open>e\<close> is 52 below the exponent of its leading bit (53 significant
  bits) and not below \<open>-1074\<close> (the subnormal numbers); a result of magnitude \<open>2^1024\<close>
  or more is infinite.
\<close>

definition to_double :: "rat \<Rightarrow> jsnum" where
  "to_double x =
     (if x = 0 then Num 0
      else
        (let e = max (floor_log2 \<bar>x\<bar> - 52) (- 1074);
             y = of_int (round_half_even (x / 2 powi e)) * 2 powi e
         in if 2 ^ 1024 \<le> \<bar>y\<bar> then (if 0 < x then PosInfinity else NegInfinity)
            else Num y))"

text \<open>\<open>a - b\<close> on finite numbers, and \<open>x * b\<close> where \<open>x\<close> is the result of an operation.\<close>

definition js_minus :: "number \<Rightarrow> number \<Rightarrow> jsnum" where
  "js_minus a b = to_double (a - b)"

definition js_times :: "jsnum \<Rightarrow> number \<Rightarrow> jsnum" where
  "js_times x b =
     (case x of
        Num a \<Rightarrow> to_double (a * b)
      | PosInfinity \<Rightarrow> if b = 0 then NaN else if 0 < b then PosInfinity else NegInfinity
      | NegInfinity \<Rightarrow> if b = 0 then NaN else if 0 < b then NegInfinity else PosInfinity
      | NaN \<Rightarrow> NaN)"

text \<open>\<open>Math.ceil\<close>: an infinity and \<open>NaN\<close> are returned as they are.\<close>

definition js_ceil :: "jsnum \<Rightarrow> jsnum" where
  "js_ceil x = (case x of Num q \<Rightarrow> Num (of_int \<lceil>q\<rceil>) | _ \<Rightarrow> x)"

text \<open>\<open>Math.ceil(a / b)\<close>: the quotient is rounded to a double before the ceiling is taken.\<close>

definition ceil_div :: "number \<Rightarrow> number \<Rightarrow> jsnum" where
  "ceil_div a b =
     (if b = 0 then (if a = 0 then NaN else if 0 < a then PosInfinity else NegInfinity)
      else js_ceil (to_double (a / b)))"

text \<open>\<open>x < y\<close> for a finite \<open>x\<close>.\<close>

fun js_less :: "number \<Rightarrow> jsnum \<Rightarrow> bool" where
  "js_less x (Num y) = (x < y)"
| "js_less x PosInfinity = True"
| "js_less x NegInfinity = False"
| "js_less x NaN = False"

text \<open>\<open>v || d\<close> on an optional number: \<open>undefined\<close> and \<open>0\<close> are falsy.\<close>

definition num_or :: "number option \<Rightarrow> number \<Rightarrow> number" where
  "num_or v d = (case v of None \<Rightarrow> d | Some x \<Rightarrow> if x = 0 then d else x)"

section \<open>PaginationBuilder\<close>

record PaginationConfig =
  defaultPageSize :: number
  maxPageSize :: number
  enableOffset :: bool
  enableCursor :: bool

record PartialPaginationConfig =
  cfg_defaultPageSize :: "number option"
  cfg_maxPageSize :: "number option"
  cfg_enableOffset :: "bool option"
  cfg_enableCursor :: "bool option"

record PaginationOptions =
  opt_page :: "number option"
  opt_pageSize :: "number option"
  opt_offset :: "number option"
  opt_limit :: "number option"
  opt_cursor :: "string option"
  opt_direction :: "string option"

text \<open>The messages \<open>PaginationBuilder.validate\<close> collects, with the number a message quotes.\<close>

datatype pagination_issue =
    PageNotPositiveInteger
  | PageSizeNotPositiveInteger
  | PageSizeExceeds number
  | OffsetNotNonNegativeInteger
  | LimitNotPositiveInteger
  | LimitExceeds number
  | BothPageAndOffsetBased

record PaginationValidation =
  pv_isValid :: bool
  pv_errors :: "pagination_issue list"

record ProcessedPagination =
  pp_offset :: jsnum
  pp_limit :: number
  pp_page :: number
  pp_pageSize :: number

record PaginationMeta =
  meta_page :: number
  meta_pageSize :: number
  meta_total :: number
  meta_totalPages :: jsnum
  meta_hasNext :: bool
  meta_hasPrev :: bool

record 'row PaginationResult =
  result_data :: "'row list"
  result_pagination :: PaginationMeta

text \<open>The constructor: \<open>config.defaultPageSize || 10\<close> and so on.\<close>

definition new_PaginationBuilder :: "PartialPaginationConfig \<Rightarrow> PaginationConfig" where
  "new_PaginationBuilder config =
     \<lparr> defaultPageSize = num_or (cfg_defaultPageSize config) 10,
       maxPageSize = num_or (cfg_maxPageSize config) 100,
       enableOffset = (cfg_enableOffset config \<noteq> Some False),
       enableCursor = (cfg_enableCursor config = Some True) \<rparr>"

definition PaginationBuilder_validate :: "PaginationConfig \<Rightarrow> PaginationOptions \<Rightarrow> PaginationValidation" where
  "PaginationBuilder_validate config options =
     (let e1 = (case opt_page options of
                  None \<Rightarrow> []
                | Some p \<Rightarrow> if \<not> isInteger p \<or> p < 1 then [PageNotPositiveInteger] else []);
          e2 = (case opt_pageSize options of
                  None \<Rightarrow> []
                | Some s \<Rightarrow>
                    if \<not> isInteger s \<or> s < 1 then [PageSizeNotPositiveInteger]
                    else if s > maxPageSize config then [PageSizeExceeds (maxPageSize config)]
                    else []);
          e3 = (case opt_offset options of
                  None \<Rightarrow> []
                | Some off \<Rightarrow>
                    if \<not> isInteger off \<or> off < 0 then [OffsetNotNonNegativeInteger] else []);
          e4 = (case opt_limit options of
                  None \<Rightarrow> []
                | Some l \<Rightarrow>
                    if \<not> isInteger l \<or> l < 1 then [LimitNotPositiveInteger]
                    else if l > maxPageSize config then [LimitExceeds (maxPageSize config)]
                    else []);
          hasPageBased = (opt_page options \<noteq> None \<or> opt_pageSize options \<noteq> None);
          hasOffsetBased = (opt_offset options \<noteq> None \<or> opt_limit options \<noteq> None);
          e5 = (if hasPageBased \<and> hasOffsetBased then [BothPageAndOffsetBased] else []);
          errs = e1 @ e2 @ e3 @ e4 @ e5
      in \<lparr> pv_isValid = (length errs = 0), pv_errors = errs \<rparr>)"

definition calculateOffset :: "number \<Rightarrow> number \<Rightarrow> jsnum" where
  "calculateOffset page pageSize = js_times (js_minus page 1) pageSize"

definition calculateTotalPages :: "number \<Rightarrow> number \<Rightarrow> jsnum" where
  "calculateTotalPages totalCount pageSize = ceil_div totalCount pageSize"

text \<open>
  What \<open>PaginationBuilder.process\<close> throws: a \<open>PaginationError\<close> with the code
  \<open>INVALID_PAGINATION_OPTIONS\<close>, the collected messages, and the page and page size
  of the options.
\<close>

datatype pagination_error =
  PaginationError string "pagination_issue list" "number option" "number option"

definition PaginationBuilder_process :: "PaginationConfig \<Rightarrow> PaginationOptions \<Rightarrow> pagination_error + ProcessedPagination" where
  "PaginationBuilder_process config options =
     (let validation = PaginationBuilder_validate config options in
      if \<not> pv_isValid validation then
        Inl (PaginationError ''INVALID_PAGINATION_OPTIONS'' (pv_errors validation)
               (opt_page options) (opt_pageSize options))
      else
        let page = num_or (opt_page options) 1;
            pageSize = min (num_or (opt_pageSize options) (defaultPageSize config))
                           (maxPageSize config)
        in (case opt_offset options of
              Some off \<Rightarrow>
                if enableOffset config then
                  Inr \<lparr> pp_offset = Num off,
                        pp_limit = num_or (opt_limit options) (defaultPageSize config),
                        pp_page = page, pp_pageSize = pageSize \<rparr>
                else
                  Inr \<lparr> pp_offset = calculateOffset page pageSize, pp_limit = pageSize,
                        pp_page = page, pp_pageSize = pageSize \<rparr>
            | None \<Rightarrow>
                Inr \<lparr> pp_offset = calculateOffset page pageSize, pp_limit = pageSize,
                      pp_page = page, pp_pageSize = pageSize \<rparr>))"

definition buildResult :: "'row list \<Rightarrow> number \<Rightarrow> number \<Rightarrow> number \<Rightarrow> 'row PaginationResult" where
  "buildResult data totalCount page pageSize =
     (let totalPages = calculateTotalPages totalCount pageSize in
      \<lparr> result_data = data,
        result_pagination =
          \<lparr> meta_page = page, meta_pageSize = pageSize, meta_total = totalCount,
            meta_totalPages = totalPages,
            meta_hasNext = js_less page totalPages,
            meta_hasPrev = (page > 1) \<rparr> \<rparr>)"

section \<open>Filter values and compiled predicates\<close>

text \<open>
  A filter value is any JavaScript value. The model has the values a filter can carry as
  data: \<open>undefined\<close>, \<open>null\<close>, booleans, numbers, strings, arrays and plain
  objects of these (an object being the list of its own properties, its prototype
  \<open>Object.prototype\<close>). The numbers of the model are the safe integers, those of
  magnitude at most \<open>2^53 - 1\<close>, which JavaScript prints in decimal notation; \<open>num n\<close>
  is the number \<open>n\<close>, for a safe integer \<open>n\<close>. Other numbers (fractions, larger
  integers, the infinities and \<open>NaN\<close>), functions and symbols are not among the
  values of the model.
\<close>

typedef safe_integer = "{n :: int. \<bar>n\<bar> \<le> 2 ^ 53 - 1}"
  by (rule exI [of _ 0]) simp

setup_lifting type_definition_safe_integer

lift_definition safe_integer_of :: "int \<Rightarrow> safe_integer"
  is "\<lambda>n. if \<bar>n\<bar> \<le> 2 ^ 53 - 1 then n else 0"
  by simp

instantiation safe_integer :: equal
begin

lift_definition equal_safe_integer :: "safe_integer \<Rightarrow> safe_integer \<Rightarrow> bool"
  is "\<lambda>m n. m = n" .

instance
  by standard (simp add: equal_safe_integer.rep_eq Rep_safe_integer_inject)

end

datatype jsval =
    JUndefined
  | JNull
  | JBool bool
  | JNum safe_integer
  | JStr string
  | JArr "jsval list"
  | JObj "(string \<times> jsval) list"

definition num :: "int \<Rightarrow> jsval" where
  "num n = JNum (safe_integer_of n)"

text \<open>What a \<open>throw\<close> carries: an \<open>Error\<close> with its message, or something else.\<close>

datatype js_throw = ThrowError string | ThrowOther

definition throw_message :: "js_throw \<Rightarrow> string" where
  "throw_message t = (case t of ThrowError m \<Rightarrow> m | ThrowOther \<Rightarrow> ''Unknown error'')"

fun string_of_nat :: "nat \<Rightarrow> string" where
  "string_of_nat n =
     (if n < 10 then [''0123456789'' ! n]
      else string_of_nat (n div 10) @ [''0123456789'' ! (n mod 10)])"

declare string_of_nat.simps [simp del]

definition string_of_int :: "int \<Rightarrow> string" where
  "string_of_int i =
     (if i < 0 then ''-'' @ string_of_nat (nat (- i)) else string_of_nat (nat i))"

text \<open>
  The string a template literal \<open>`${value}`\<close> puts in place of the value. An array is
  joined with commas, \<open>null\<close> and \<open>undefined\<close> inside an array being empty. An
  object is converted by its \<open>toString\<close> method: the inherited one gives
  \<open>[object Object]\<close>; an own property of that name holds a value that cannot be
  called, and the conversion, finding no method that returns a primitive value, throws a
  \<open>TypeError\<close>.
\<close>

fun toString :: "jsval \<Rightarrow> js_throw + string"
  and join_elements :: "jsval list \<Rightarrow> js_throw + string" where
  "toString JUndefined = Inr ''undefined''"
| "toString JNull = Inr ''null''"
| "toString (JBool b) = Inr (if b then ''true'' else ''false'')"
| "toString (JNum n) = Inr (string_of_int (Rep_safe_integer n))"
| "toString (JStr s) = Inr s"
| "toString (JArr xs) = join_elements xs"
| "toString (JObj kvs) =
     (if ''toString'' \<in> set (map fst kvs) then
        Inl (ThrowError ''Cannot convert object to primitive value'')
      else Inr ''[object Object]'')"
| "join_elements [] = Inr []"
| "join_elements (x # xs) =
     (case (if x = JUndefined \<or> x = JNull then Inr [] else toString x) of
        Inl e \<Rightarrow> Inl e
      | Inr s \<Rightarrow>
          if xs = [] then Inr s
          else (case join_elements xs of
                  Inl e \<Rightarrow> Inl e
                | Inr t \<Rightarrow> Inr (s @ '','' @ t)))"

text \<open>
  \<open>object[key]\<close> on a plain object that holds entries of one kind: the own entry of
  that name, or else the member of that name inherited from \<open>Object.prototype\<close> (a
  function, or for \<open>__proto__\<close> the prototype itself), or else \<open>undefined\<close>.
\<close>

definition object_prototype_members :: "string list" where
  "object_prototype_members =
     [''constructor'', ''__defineGetter__'', ''__defineSetter__'', ''hasOwnProperty'',
      ''__lookupGetter__'', ''__lookupSetter__'', ''isPrototypeOf'',
      ''propertyIsEnumerable'', ''toString'', ''valueOf'', ''__proto__'',
      ''toLocaleString'']"

datatype 'a property = Absent | Own 'a | Inherited

definition read_property :: "(string \<rightharpoonup> 'a) \<Rightarrow> string \<Rightarrow> 'a property" where
  "read_property obj key =
     (case obj key of
        Some x \<Rightarrow> Own x
      | None \<Rightarrow> if key \<in> set object_prototype_members then Inherited else Absent)"

text \<open>\<open>Array.isArray(value)\<close>, and \<open>Array.isArray(value) && value.length === 2\<close>.\<close>

fun isArray :: "jsval \<Rightarrow> bool" where
  "isArray (JArr xs) = True"
| "isArray v = False"

fun isArrayOfTwo :: "jsval \<Rightarrow> bool" where
  "isArrayOfTwo (JArr xs) = (length xs = 2)"
| "isArrayOfTwo v = False"

text \<open>The operator symbols of the record store (\<open>Op.ne\<close>, \<open>Op.iLike\<close>, ...).\<close>

datatype Op =
    Op_ne | Op_gt | Op_gte | Op_lt | Op_lte
  | Op_like | Op_iLike | Op_notLike | Op_notILike
  | Op_in | Op_notIn | Op_between | Op_notBetween
  | Op_is | Op_not | Op_regexp | Op_notRegexp
  | Op_and | Op_or

text \<open>
  A compiled predicate is an object: a list of keys with their values, a key being a
  field name or an operator symbol. \<open>{}\<close> is the empty list.
\<close>

datatype wkey = Field string | Sym Op

datatype wvalue =
    Val jsval
  | Obj "(wkey \<times> wvalue) list"
  | Arr "wvalue list"

type_synonym whereobj = "(wkey \<times> wvalue) list"

section \<open>FilterProcessor\<close>

record FilterCondition =
  fc_field :: string
  fc_operator :: string
  fc_value :: jsval
  fc_caseSensitive :: "bool option"

datatype filter_node =
    Condition FilterCondition
  | Group string "filter_node list"

text \<open>The three shapes \<open>process\<close> tells apart: an array, a group, a single condition.\<close>

datatype filters_input =
    FilterArray "FilterCondition list"
  | FilterGroup string "filter_node list"
  | FilterSingle FilterCondition

record FieldSchema =
  fs_type :: string
  fs_operators :: "string list"
  fs_transform :: "(jsval \<Rightarrow> js_throw + jsval) option"

text \<open>The schema is a plain object, given by its own entries; \<open>{}\<close> has none.\<close>

type_synonym FilterSchema = "string \<rightharpoonup> FieldSchema"

record FilterResult =
  fr_where :: whereobj
  fr_errors :: "string list"
  fr_warnings :: "string list"

definition FilterProcessor_validateCondition :: "FilterCondition \<Rightarrow> bool" where
  "FilterProcessor_validateCondition condition =
     (if fc_field condition = [] \<or> fc_operator condition = [] then False
      else if fc_value condition = JUndefined \<or> fc_value condition = JNull then
        fc_operator condition \<in> set [''is'', ''isNot'']
      else True)"

definition field_op :: "string \<Rightarrow> Op \<Rightarrow> jsval \<Rightarrow> whereobj" where
  "field_op field op v = [(Field field, Obj [(Sym op, Val v)])]"

definition processOperator :: "string \<Rightarrow> string \<Rightarrow> jsval \<Rightarrow> bool option \<Rightarrow> js_throw + whereobj" where
  "processOperator field operator v caseSensitive =
     (if operator = ''eq'' then Inr [(Field field, Val v)]
      else if operator = ''ne'' then Inr (field_op field Op_ne v)
      else if operator = ''gt'' then Inr (field_op field Op_gt v)
      else if operator = ''gte'' then Inr (field_op field Op_gte v)
      else if operator = ''lt'' then Inr (field_op field Op_lt v)
      else if operator = ''lte'' then Inr (field_op field Op_lte v)
      else if operator = ''like'' then Inr (field_op field Op_iLike v)
      else if operator = ''notLike'' then Inr (field_op field Op_notLike v)
      else if operator = ''iLike'' then Inr (field_op field Op_iLike v)
      else if operator = ''notILike'' then Inr (field_op field Op_notILike v)
      else if operator = ''in'' then
        Inr (field_op field Op_in (if isArray v then v else JArr [v]))
      else if operator = ''notIn'' then
        Inr (field_op field Op_notIn (if isArray v then v else JArr [v]))
      else if operator = ''between'' then
        Inr (field_op field Op_between (if isArrayOfTwo v then v else JArr [v, v]))
      else if operator = ''notBetween'' then
        Inr (field_op field Op_notBetween (if isArrayOfTwo v then v else JArr [v, v]))
      else if operator = ''is'' then Inr (field_op field Op_is v)
      else if operator = ''isNot'' then Inr (field_op field Op_not v)
      else if operator = ''startsWith'' then
        (case toString v of
           Inl e \<Rightarrow> Inl e
         | Inr s \<Rightarrow> Inr (field_op field Op_iLike (JStr (s @ ''%''))))
      else if operator = ''endsWith'' then
        (case toString v of
           Inl e \<Rightarrow> Inl e
         | Inr s \<Rightarrow> Inr (field_op field Op_iLike (JStr (''%'' @ s))))
      else if operator = ''contains'' then
        (case toString v of
           Inl e \<Rightarrow> Inl e
         | Inr s \<Rightarrow> Inr (field_op field Op_iLike (JStr (''%'' @ s @ ''%''))))
      else if operator = ''regexp'' then Inr (field_op field Op_regexp v)
      else if operator = ''notRegexp'' then Inr (field_op field Op_notRegexp v)
      else Inl (ThrowError (''Unsupported operator: '' @ operator)))"

text \<open>
  The functions below share the \<open>errors\<close> array of \<open>process\<close>: each takes the
  array as it is and returns it as it has become, with the compiled predicate or the
  exception that left the function. Where \<open>this.schema[condition.field]\<close> finds an
  inherited member, \<open>fieldSchema\<close> is truthy and has no \<open>operators\<close>, so that
  \<open>fieldSchema.operators.includes\<close> throws a \<open>TypeError\<close>.
\<close>

definition quoted :: "string \<Rightarrow> string" where
  "quoted s = [CHR 0x27] @ s @ [CHR 0x27]"

definition processFilterCondition ::
  "FilterSchema \<Rightarrow> FilterCondition \<Rightarrow> string list \<Rightarrow> string list \<times> (js_throw + whereobj)" where
  "processFilterCondition schema condition errors =
     (if \<not> FilterProcessor_validateCondition condition then
        (errors @ [''Invalid filter condition for field: '' @ fc_field condition], Inr [])
      else
        (case read_property schema (fc_field condition) of
           Absent \<Rightarrow>
             (errors, processOperator (fc_field condition) (fc_operator condition)
                        (fc_value condition) (fc_caseSensitive condition))
         | Inherited \<Rightarrow>
             (errors,
              Inl (ThrowError
                     (''Cannot read properties of undefined (reading '' @ quoted ''includes''
                      @ '')'')))
         | Own fieldSchema \<Rightarrow>
             if fc_operator condition \<notin> set (fs_operators fieldSchema) then
               (errors @ [''Operator '' @ quoted (fc_operator condition)
                          @ '' not allowed for field '' @ quoted (fc_field condition)],
                Inr [])
             else
               (case fs_transform fieldSchema of
                  None \<Rightarrow>
                    (errors, processOperator (fc_field condition) (fc_operator condition)
                               (fc_value condition) (fc_caseSensitive condition))
                | Some transform \<Rightarrow>
                    (case transform (fc_value condition) of
                       Inl e \<Rightarrow>
                         (errors @ [''Value transformation failed for field ''
                                    @ quoted (fc_field condition) @ '': ''
                                    @ throw_message e], Inr [])
                     | Inr v \<Rightarrow>
                         (errors, processOperator (fc_field condition) (fc_operator condition)
                                    v (fc_caseSensitive condition))))))"

fun processFilterArray_map ::
  "FilterSchema \<Rightarrow> FilterCondition list \<Rightarrow> string list \<Rightarrow> string list \<times> (js_throw + whereobj list)" where
  "processFilterArray_map schema [] errors = (errors, Inr [])"
| "processFilterArray_map schema (c # cs) errors =
     (case processFilterCondition schema c errors of
        (errors1, Inl t) \<Rightarrow> (errors1, Inl t)
      | (errors1, Inr w) \<Rightarrow>
          (case processFilterArray_map schema cs errors1 of
             (errors2, Inl t) \<Rightarrow> (errors2, Inl t)
           | (errors2, Inr ws) \<Rightarrow> (errors2, Inr (w # ws))))"

definition processFilterArray ::
  "FilterSchema \<Rightarrow> FilterCondition list \<Rightarrow> string list \<Rightarrow> string list \<times> (js_throw + whereobj)" where
  "processFilterArray schema filters errors =
     (case processFilterArray_map schema filters errors of
        (errors1, Inl t) \<Rightarrow> (errors1, Inl t)
      | (errors1, Inr conditions) \<Rightarrow> (errors1, Inr [(Sym Op_and, Arr (map Obj conditions))]))"

fun processFilterGroup ::
    "FilterSchema \<Rightarrow> string \<Rightarrow> filter_node list \<Rightarrow> string list \<Rightarrow> string list \<times> (js_throw + whereobj)"
  and processFilterGroup_map ::
    "FilterSchema \<Rightarrow> filter_node list \<Rightarrow> string list \<Rightarrow> string list \<times> (js_throw + whereobj list)" where
  "processFilterGroup schema operator conditions errors =
     (case processFilterGroup_map schema conditions errors of
        (errors1, Inl t) \<Rightarrow> (errors1, Inl t)
      | (errors1, Inr ws) \<Rightarrow>
          (errors1, Inr [(Sym (if operator = ''and'' then Op_and else Op_or), Arr (map Obj ws))]))"
| "processFilterGroup_map schema [] errors = (errors, Inr [])"
| "processFilterGroup_map schema (Condition c # ns) errors =
     (case processFilterCondition schema c errors of
        (errors1, Inl t) \<Rightarrow> (errors1, Inl t)
      | (errors1, Inr w) \<Rightarrow>
          (case processFilterGroup_map schema ns errors1 of
             (errors2, Inl t) \<Rightarrow> (errors2, Inl t)
           | (errors2, Inr ws) \<Rightarrow> (errors2, Inr (w # ws))))"
| "processFilterGroup_map schema (Group operator conditions # ns) errors =
     (case processFilterGroup schema operator conditions errors of
        (errors1, Inl t) \<Rightarrow> (errors1, Inl t)
      | (errors1, Inr w) \<Rightarrow>
          (case processFilterGroup_map schema ns errors1 of
             (errors2, Inl t) \<Rightarrow> (errors2, Inl t)
           | (errors2, Inr ws) \<Rightarrow> (errors2, Inr (w # ws))))"

text \<open>
  \<open>process\<close>: the \<open>try\<close> block returns the predicate with the collected errors; the
  \<open>catch\<close> adds one entry for the exception and returns the empty predicate.
\<close>

definition FilterProcessor_process :: "FilterSchema \<Rightarrow> filters_input \<Rightarrow> FilterResult" where
  "FilterProcessor_process schema filters =
     (case (case filters of
              FilterArray fs \<Rightarrow> processFilterArray schema fs []
            | FilterGroup operator conditions \<Rightarrow> processFilterGroup schema operator conditions []
            | FilterSingle condition \<Rightarrow> processFilterCondition schema condition []) of
        (errors, Inr w) \<Rightarrow> \<lparr> fr_where = w, fr_errors = errors, fr_warnings = [] \<rparr>
      | (errors, Inl t) \<Rightarrow>
          \<lparr> fr_where = [],
            fr_errors = errors @ [''Filter processing error: '' @ throw_message t],
            fr_warnings = [] \<rparr>)"

text \<open>The \<open>case\<close> labels of \<open>processOperator\<close>.\<close>

definition supported_operators :: "string list" where
  "supported_operators =
     [''eq'', ''ne'', ''gt'', ''gte'', ''lt'', ''lte'', ''like'', ''notLike'', ''iLike'',
      ''notILike'', ''in'', ''notIn'', ''between'', ''notBetween'', ''is'', ''isNot'',
      ''startsWith'', ''endsWith'', ''contains'', ''regexp'', ''notRegexp'']"

text \<open>
  The schema lets a condition through to \<open>processOperator\<close> with its value as it is:
  \<open>this.schema[condition.field]\<close> is \<open>undefined\<close>, or it is an own entry that lists
  the operator and has no transform.
\<close>

definition schema_passes :: "FilterSchema \<Rightarrow> FilterCondition \<Rightarrow> bool" where
  "schema_passes schema condition =
     (case read_property schema (fc_field condition) of
        Absent \<Rightarrow> True
      | Inherited \<Rightarrow> False
      | Own fieldSchema \<Rightarrow>
          fc_operator condition \<in> set (fs_operators fieldSchema)
          \<and> fs_transform fieldSchema = None)"

section \<open>The clock and the console\<close>

text \<open>
  \<open>Date.now()\<close> reads a clock that the program does not control. The world holds the
  sequence of readings (\<open>w_clock k\<close> is what the \<open>k\<close>-th call returns) and the
  number of readings taken so far; \<open>console.warn\<close> appends to \<open>w_console\<close>. The
  counters of the calls made to the record store are kept here as well.
\<close>

record world =
  w_clock :: "nat \<Rightarrow> int"
  w_reads :: nat
  w_console :: "string list"
  w_findAllCalls :: nat
  w_countCalls :: nat

definition Date_now :: "world \<Rightarrow> int \<times> world" where
  "Date_now w = (w_clock w (w_reads w), w\<lparr>w_reads := Suc (w_reads w)\<rparr>)"

definition console_warn :: "string \<Rightarrow> world \<Rightarrow> world" where
  "console_warn msg w = w\<lparr>w_console := w_console w @ [msg]\<rparr>"

section \<open>PerformanceMonitor\<close>

record PerformanceMetrics =
  queryExecutionTime :: int
  totalExecutionTime :: int
  memoryUsage :: int
  queryCount :: int
  cacheHits :: int
  cacheMisses :: int

record PerformanceMonitor =
  pm_metrics :: "string \<rightharpoonup> PerformanceMetrics"
  pm_enabled :: bool
  pm_threshold :: int

text \<open>The fields of the query context that the monitor reads.\<close>

record QueryContext =
  ctx_method :: string
  ctx_modelName :: string
  ctx_startTime :: int
  ctx_requestId :: string

text \<open>The constructor: \<open>enabled = true\<close> and \<open>threshold = 1000\<close> where not given.\<close>

definition new_PerformanceMonitor :: "bool option \<Rightarrow> int option \<Rightarrow> PerformanceMonitor" where
  "new_PerformanceMonitor enabled threshold =
     \<lparr> pm_metrics = Map.empty,
       pm_enabled = (case enabled of None \<Rightarrow> True | Some e \<Rightarrow> e),
       pm_threshold = (case threshold of None \<Rightarrow> 1000 | Some t \<Rightarrow> t) \<rparr>"

definition generateMonitorId :: "QueryContext \<Rightarrow> world \<Rightarrow> string \<times> world" where
  "generateMonitorId context w =
     (case Date_now w of
        (t, w1) \<Rightarrow>
          (ctx_method context @ ''_'' @ ctx_modelName context @ ''_'' @ ctx_requestId context
             @ ''_'' @ string_of_int t, w1))"

definition startMonitoring ::
  "PerformanceMonitor \<Rightarrow> QueryContext \<Rightarrow> world \<Rightarrow> string \<times> PerformanceMonitor \<times> world" where
  "startMonitoring pm context w =
     (if \<not> pm_enabled pm then ([], pm, w)
      else
        (case generateMonitorId context w of
           (monitorId, w1) \<Rightarrow>
             (monitorId,
              pm\<lparr>pm_metrics := (pm_metrics pm)(monitorId \<mapsto>
                   \<lparr> queryExecutionTime = 0, totalExecutionTime = 0, memoryUsage = 0,
                     queryCount = 0, cacheHits = 0, cacheMisses = 0 \<rparr>)\<rparr>,
              w1)))"

text \<open>
  \<open>endMonitoring\<close> reads the clock twice: once for \<open>endTime\<close>, and once more inside
  the subtraction \<open>endTime - Date.now()\<close>.
\<close>

definition endMonitoring ::
  "PerformanceMonitor \<Rightarrow> string \<Rightarrow> world \<Rightarrow> PerformanceMetrics option \<times> PerformanceMonitor \<times> world" where
  "endMonitoring pm monitorId w =
     (if \<not> pm_enabled pm \<or> monitorId = [] then (None, pm, w)
      else
        (case pm_metrics pm monitorId of
           None \<Rightarrow> (None, pm, w)
         | Some metrics \<Rightarrow>
             (case Date_now w of
                (endTime, w1) \<Rightarrow>
                  (case Date_now w1 of
                     (now2, w2) \<Rightarrow>
                       (let metrics1 = metrics\<lparr>totalExecutionTime := endTime - now2\<rparr>;
                            w3 = (if totalExecutionTime metrics1 > pm_threshold pm then
                                    console_warn
                                      (''Query execution time (''
                                       @ string_of_int (totalExecutionTime metrics1)
                                       @ ''ms) exceeded threshold (''
                                       @ string_of_int (pm_threshold pm) @ ''ms)'') w2
                                  else w2)
                        in (Some metrics1,
                            pm\<lparr>pm_metrics := (pm_metrics pm)(monitorId := None)\<rparr>,
                            w3))))))"

definition recordQueryExecution :: "PerformanceMonitor \<Rightarrow> string \<Rightarrow> int \<Rightarrow> PerformanceMonitor" where
  "recordQueryExecution pm monitorId executionTime =
     (if \<not> pm_enabled pm \<or> monitorId = [] then pm
      else
        (case pm_metrics pm monitorId of
           None \<Rightarrow> pm
         | Some metrics \<Rightarrow>
             pm\<lparr>pm_metrics := (pm_metrics pm)(monitorId \<mapsto>
                  metrics\<lparr>queryExecutionTime := queryExecutionTime metrics + executionTime,
                          queryCount := queryCount metrics + 1\<rparr>)\<rparr>))"

definition recordCacheHit :: "PerformanceMonitor \<Rightarrow> string \<Rightarrow> PerformanceMonitor" where
  "recordCacheHit pm monitorId =
     (if \<not> pm_enabled pm \<or> monitorId = [] then pm
      else
        (case pm_metrics pm monitorId of
           None \<Rightarrow> pm
         | Some metrics \<Rightarrow>
             pm\<lparr>pm_metrics := (pm_metrics pm)(monitorId \<mapsto>
                  metrics\<lparr>cacheHits := cacheHits metrics + 1\<rparr>)\<rparr>))"

definition recordCacheMiss :: "PerformanceMonitor \<Rightarrow> string \<Rightarrow> PerformanceMonitor" where
  "recordCacheMiss pm monitorId =
     (if \<not> pm_enabled pm \<or> monitorId = [] then pm
      else
        (case pm_metrics pm monitorId of
           None \<Rightarrow> pm
         | Some metrics \<Rightarrow>
             pm\<lparr>pm_metrics := (pm_metrics pm)(monitorId \<mapsto>
                  metrics\<lparr>cacheMisses := cacheMisses metrics + 1\<rparr>)\<rparr>))"

section \<open>SortProcessor and SortBuilder\<close>

record SortCondition =
  sc_column :: "string option"
  sc_order :: "string option"
  sc_nulls :: "string option"
  sc_caseSensitive :: "bool option"

text \<open>Truthiness of an optional string, \<open>a || d\<close>, and \<open>`${a}`\<close>.\<close>

definition truthy :: "string option \<Rightarrow> bool" where
  "truthy a = (case a of None \<Rightarrow> False | Some s \<Rightarrow> s \<noteq> [])"

definition str_or :: "string option \<Rightarrow> string \<Rightarrow> string" where
  "str_or a d = (case a of None \<Rightarrow> d | Some s \<Rightarrow> if s = [] then d else s)"

definition str_of :: "string option \<Rightarrow> string" where
  "str_of a = (case a of None \<Rightarrow> ''undefined'' | Some s \<Rightarrow> s)"

record ColumnSchema =
  cs_allowed :: bool
  cs_defaultOrder :: "string option"
  cs_nulls :: "string option"
  cs_caseSensitive :: "bool option"

text \<open>
  The processor holds its schema, a plain object given by its own entries, and the
  \<open>sequelize\<close> handle, which is \<open>undefined\<close> until \<open>setSequelize\<close> is called.
  Where \<open>this.schema[condition.column]\<close> finds an inherited member, \<open>columnSchema\<close>
  is truthy and has no \<open>allowed\<close>, so the column is refused.
\<close>

record SortProcessor =
  sp_schema :: "string \<rightharpoonup> ColumnSchema"
  sp_sequelize :: bool

datatype sort_expression =
    SortColumn string
  | SortLower string
  | SortWithNulls sort_expression string

type_synonym order_entry = "sort_expression \<times> string"

text \<open>\<open>order\<close> is a list of entries for an array of conditions, one entry or \<open>null\<close> for a single one.\<close>

datatype order_value = OrderList "order_entry list" | OrderEntry "order_entry option"

datatype sorts_input = SortArray "SortCondition list" | SortSingle SortCondition

record SortResult =
  sr_order :: order_value
  sr_errors :: "string list"
  sr_warnings :: "string list"

definition new_SortProcessor :: SortProcessor where
  "new_SortProcessor = \<lparr> sp_schema = Map.empty, sp_sequelize = False \<rparr>"

definition SortProcessor_validateCondition :: "SortCondition \<Rightarrow> bool" where
  "SortProcessor_validateCondition condition =
     (if \<not> truthy (sc_column condition) then False
      else if truthy (sc_order condition)
              \<and> str_of (sc_order condition) \<notin> set [''ASC'', ''DESC''] then False
      else if truthy (sc_nulls condition)
              \<and> str_of (sc_nulls condition) \<notin> set [''first'', ''last''] then False
      else True)"

definition processSortCondition ::
  "SortProcessor \<Rightarrow> SortCondition \<Rightarrow> string list \<Rightarrow> string list \<times> (js_throw + order_entry option)" where
  "processSortCondition processor condition errors =
     (if \<not> SortProcessor_validateCondition condition then
        (errors @ [''Invalid sort condition for column: '' @ str_of (sc_column condition)],
         Inr None)
      else
        (let column = str_of (sc_column condition);
             columnSchema = read_property (sp_schema processor) column
         in if (case columnSchema of
                  Absent \<Rightarrow> False
                | Own cs \<Rightarrow> \<not> cs_allowed cs
                | Inherited \<Rightarrow> True) then
              (errors @ [''Column '' @ quoted column @ '' is not allowed for sorting''], Inr None)
            else
              (let order = str_or (sc_order condition)
                             (str_or (case columnSchema of Own cs \<Rightarrow> cs_defaultOrder cs
                                      | _ \<Rightarrow> None) ''ASC'');
                   lower = (sc_caseSensitive condition = Some False
                            \<or> (case columnSchema of Own cs \<Rightarrow> cs_caseSensitive cs = Some False
                                | _ \<Rightarrow> False));
                   nulls = str_or (sc_nulls condition)
                             (str_or (case columnSchema of Own cs \<Rightarrow> cs_nulls cs
                                      | _ \<Rightarrow> None) [])
               in if lower \<and> \<not> sp_sequelize processor then
                    (errors,
                     Inl (ThrowError
                            (''Cannot read properties of undefined (reading '' @ quoted ''fn''
                             @ '')'')))
                  else
                    (let sortExpression = (if lower then SortLower column else SortColumn column);
                         sortExpression1 =
                           (if nulls \<noteq> [] then
                              SortWithNulls sortExpression
                                (if nulls = ''first'' then ''NULLS FIRST'' else ''NULLS LAST'')
                            else sortExpression)
                     in (errors, Inr (Some (sortExpression1, order)))))))"

fun processSortArray_map ::
  "SortProcessor \<Rightarrow> SortCondition list \<Rightarrow> string list \<Rightarrow> string list \<times> (js_throw + order_entry option list)" where
  "processSortArray_map processor [] errors = (errors, Inr [])"
| "processSortArray_map processor (c # cs) errors =
     (case processSortCondition processor c errors of
        (errors1, Inl t) \<Rightarrow> (errors1, Inl t)
      | (errors1, Inr r) \<Rightarrow>
          (case processSortArray_map processor cs errors1 of
             (errors2, Inl t) \<Rightarrow> (errors2, Inl t)
           | (errors2, Inr rs) \<Rightarrow> (errors2, Inr (r # rs))))"

text \<open>\<open>sorts.map(...).filter(Boolean)\<close>: the \<open>null\<close> results are dropped.\<close>

definition processSortArray ::
  "SortProcessor \<Rightarrow> SortCondition list \<Rightarrow> string list \<Rightarrow> string list \<times> (js_throw + order_entry list)" where
  "processSortArray processor sorts errors =
     (case processSortArray_map processor sorts errors of
        (errors1, Inl t) \<Rightarrow> (errors1, Inl t)
      | (errors1, Inr rs) \<Rightarrow> (errors1, Inr (List.map_filter id rs)))"

definition SortProcessor_process :: "SortProcessor \<Rightarrow> sorts_input \<Rightarrow> SortResult" where
  "SortProcessor_process processor sorts =
     (case (case sorts of
              SortArray ss \<Rightarrow>
                (case processSortArray processor ss [] of
                   (errors, Inl t) \<Rightarrow> (errors, Inl t)
                 | (errors, Inr es) \<Rightarrow> (errors, Inr (OrderList es)))
            | SortSingle s \<Rightarrow>
                (case processSortCondition processor s [] of
                   (errors, Inl t) \<Rightarrow> (errors, Inl t)
                 | (errors, Inr e) \<Rightarrow> (errors, Inr (OrderEntry e)))) of
        (errors, Inr order) \<Rightarrow> \<lparr> sr_order = order, sr_errors = errors, sr_warnings = [] \<rparr>
      | (errors, Inl t) \<Rightarrow>
          \<lparr> sr_order = OrderList [],
            sr_errors = errors @ [''Sort processing error: '' @ throw_message t],
            sr_warnings = [] \<rparr>)"

text \<open>
  \<open>SortBuilder.processFromOptions\<close>. The options are \<open>undefined\<close> when the caller
  reads the first element of an empty array; reading \<open>options.column\<close> then throws.
\<close>

definition SortBuilder_processFromOptions :: "SortProcessor \<Rightarrow> SortCondition option \<Rightarrow> js_throw + SortResult" where
  "SortBuilder_processFromOptions processor options =
     (case options of
        None \<Rightarrow>
          Inl (ThrowError (''Cannot read properties of undefined (reading ''
                           @ quoted ''column'' @ '')''))
      | Some opts \<Rightarrow>
          (let conditions =
                 (if truthy (sc_column opts) \<and> truthy (sc_order opts) then
                    [\<lparr> sc_column = sc_column opts, sc_order = sc_order opts,
                       sc_nulls = sc_nulls opts, sc_caseSensitive = sc_caseSensitive opts \<rparr>]
                  else [])
           in Inr (SortProcessor_process processor (SortArray conditions))))"

section \<open>Validation of builder input\<close>

text \<open>
  \<open>ValidationUtils\<close> hands its input to schemas of the Joi library, which is not part of
  the repository. The functions below follow the documented meaning of the rules the
  schemas of the source are built from: \<open>number()\<close> refuses a number outside the safe
  integer range, \<open>integer()\<close>, \<open>min\<close> and \<open>max\<close> each report their own violation,
  \<open>required()\<close> refuses an absent key, \<open>string()\<close> an empty string, \<open>valid(...)\<close> a
  value outside the list (and the empty string is then refused by \<open>string()\<close> as well),
  and an object schema refuses a key it does not list. With \<open>abortEarly: false\<close> all
  violations are reported, those of the schema's keys in their order and then the keys the
  schema does not list (\<open>cursor\<close> before \<open>direction\<close>, for an object that has them in
  this order). A detail has the path of the key, the type of the violation and the value
  that was refused (\<open>context.value\<close>), which a missing key does not have. The text of a
  message is not part of the model.
\<close>

datatype joi_value = JoiNumber number | JoiString string

datatype joi_detail = JoiDetail string string "joi_value option"

definition joi_integer :: "string \<Rightarrow> number \<Rightarrow> number option \<Rightarrow> number option \<Rightarrow> joi_detail list" where
  "joi_integer key lo hi v =
     (case v of
        None \<Rightarrow> []
      | Some x \<Rightarrow>
          if x > 2 ^ 53 - 1 \<or> x < - (2 ^ 53 - 1) then
            [JoiDetail key ''number.unsafe'' (Some (JoiNumber x))]
          else
            (if \<not> isInteger x then [JoiDetail key ''number.integer'' (Some (JoiNumber x))]
             else [])
            @ (if x < lo then [JoiDetail key ''number.min'' (Some (JoiNumber x))] else [])
            @ (case hi of
                 None \<Rightarrow> []
               | Some h \<Rightarrow>
                   if x > h then [JoiDetail key ''number.max'' (Some (JoiNumber x))] else []))"

definition joi_unknown :: "string \<Rightarrow> string option \<Rightarrow> joi_detail list" where
  "joi_unknown key v =
     (case v of
        None \<Rightarrow> []
      | Some x \<Rightarrow> [JoiDetail key ''object.unknown'' (Some (JoiString x))])"

definition joi_required_string :: "string \<Rightarrow> string option \<Rightarrow> joi_detail list" where
  "joi_required_string key v =
     (case v of
        None \<Rightarrow> [JoiDetail key ''any.required'' None]
      | Some s \<Rightarrow> if s = [] then [JoiDetail key ''string.empty'' (Some (JoiString s))] else [])"

definition joi_valid :: "string \<Rightarrow> string list \<Rightarrow> bool \<Rightarrow> string option \<Rightarrow> joi_detail list" where
  "joi_valid key allowed required v =
     (case v of
        None \<Rightarrow> if required then [JoiDetail key ''any.required'' None] else []
      | Some s \<Rightarrow>
          if s \<in> set allowed then []
          else [JoiDetail key ''any.only'' (Some (JoiString s))]
               @ (if s = [] then [JoiDetail key ''string.empty'' (Some (JoiString s))] else []))"

text \<open>
  The filter options of the builder: the \<open>search\<close> and \<open>searchFields\<close> keys, and the
  other keys with their values in the order of the object.
\<close>

record FilterOptions =
  fo_search :: "string option"
  fo_searchFields :: "string list option"
  fo_entries :: "(string \<times> jsval) list"

text \<open>
  What the builders throw. A \<open>ValidationError\<close> has a code, the field it is about, the
  value it quotes, its details and the request id; a \<open>QueryError\<close> made by
  \<open>QueryError.fromError\<close> has a code and the error it wraps. The message, the time
  stamp and the stack of an error are not part of the model.
\<close>

datatype validation_details = JoiDetails "joi_detail list" | ProcessingErrors "string list"

datatype error_value =
    NoValue
  | JoiValue joi_value
  | FiltersValue FilterOptions
  | SortingValue "SortCondition list"

datatype thrown =
    JsThrow js_throw
  | PaginationThrown pagination_error
  | ValidationError string "string option" error_value validation_details "string option"
  | JoinError string
  | QueryError string thrown

definition fromJoiError :: "joi_detail list \<Rightarrow> string option \<Rightarrow> thrown" where
  "fromJoiError details requestId =
     ValidationError ''VALIDATION_ERROR''
       (case details of [] \<Rightarrow> None | JoiDetail path t v # ds \<Rightarrow> Some path)
       (case details of JoiDetail path t (Some v) # ds \<Rightarrow> JoiValue v | _ \<Rightarrow> NoValue)
       (JoiDetails details) requestId"

definition validatePagination :: "PaginationOptions \<Rightarrow> string option \<Rightarrow> thrown + PaginationOptions" where
  "validatePagination options requestId =
     (let details =
            joi_integer ''page'' 1 None (opt_page options)
            @ joi_integer ''pageSize'' 1 (Some 1000) (opt_pageSize options)
            @ joi_integer ''offset'' 0 None (opt_offset options)
            @ joi_integer ''limit'' 1 (Some 1000) (opt_limit options)
            @ joi_unknown ''cursor'' (opt_cursor options)
            @ joi_unknown ''direction'' (opt_direction options)
      in if details \<noteq> [] then Inl (fromJoiError details requestId) else Inr options)"

definition validateSorting :: "SortCondition \<Rightarrow> string option \<Rightarrow> thrown + SortCondition" where
  "validateSorting options requestId =
     (let details =
            joi_required_string ''column'' (sc_column options)
            @ joi_valid ''order'' [''ASC'', ''DESC''] True (sc_order options)
            @ joi_valid ''nulls'' [''first'', ''last''] False (sc_nulls options)
      in if details \<noteq> [] then Inl (fromJoiError details requestId) else Inr options)"

section \<open>CacheManager\<close>

text \<open>
  A cached value is an object, and the cache holds a reference to it: the value read
  back is the object as it is at the time of the read. Objects live in a heap (a list,
  the reference being the index), and the cache maps a key to a reference with the time
  of expiry.
\<close>

type_synonym ref = nat

record MemoryCacheProvider =
  mc_cache :: "string \<rightharpoonup> (ref \<times> int)"
  mc_defaultTTL :: int

record CacheManager =
  cm_provider :: MemoryCacheProvider
  cm_enabled :: bool
  cm_defaultTTL :: int
  cm_keyPrefix :: string

text \<open>\<open>a || d\<close> on an optional number of seconds.\<close>

definition int_or :: "int option \<Rightarrow> int \<Rightarrow> int" where
  "int_or a d = (case a of None \<Rightarrow> d | Some x \<Rightarrow> if x = 0 then d else x)"

definition new_MemoryCacheProvider :: "int option \<Rightarrow> MemoryCacheProvider" where
  "new_MemoryCacheProvider defaultTTL =
     \<lparr> mc_cache = Map.empty,
       mc_defaultTTL = (case defaultTTL of None \<Rightarrow> 300 | Some t \<Rightarrow> t) \<rparr>"

definition new_CacheManager :: "MemoryCacheProvider \<Rightarrow> bool option \<Rightarrow> int option \<Rightarrow> CacheManager" where
  "new_CacheManager provider enabled defaultTTL =
     \<lparr> cm_provider = provider,
       cm_enabled = (case enabled of None \<Rightarrow> False | Some e \<Rightarrow> e),
       cm_defaultTTL = (case defaultTTL of None \<Rightarrow> 300 | Some t \<Rightarrow> t),
       cm_keyPrefix = ''sqb:'' \<rparr>"

definition MemoryCacheProvider_get ::
  "MemoryCacheProvider \<Rightarrow> string \<Rightarrow> world \<Rightarrow> ref option \<times> MemoryCacheProvider \<times> world" where
  "MemoryCacheProvider_get provider key w =
     (case mc_cache provider key of
        None \<Rightarrow> (None, provider, w)
      | Some (v, expires) \<Rightarrow>
          (case Date_now w of
             (now, w1) \<Rightarrow>
               if now > expires then
                 (None, provider\<lparr>mc_cache := (mc_cache provider)(key := None)\<rparr>, w1)
               else (Some v, provider, w1)))"

definition MemoryCacheProvider_set ::
  "MemoryCacheProvider \<Rightarrow> string \<Rightarrow> ref \<Rightarrow> int option \<Rightarrow> world \<Rightarrow> MemoryCacheProvider \<times> world" where
  "MemoryCacheProvider_set provider key v ttl w =
     (case Date_now w of
        (now, w1) \<Rightarrow>
          (let expires = now + int_or ttl (mc_defaultTTL provider) * 1000
           in (provider\<lparr>mc_cache := (mc_cache provider)(key \<mapsto> (v, expires))\<rparr>, w1)))"

definition CacheManager_get ::
  "CacheManager \<Rightarrow> string \<Rightarrow> world \<Rightarrow> ref option \<times> CacheManager \<times> world" where
  "CacheManager_get cm key w =
     (if \<not> cm_enabled cm then (None, cm, w)
      else
        (let fullKey = cm_keyPrefix cm @ key in
         case MemoryCacheProvider_get (cm_provider cm) fullKey w of
           (v, provider1, w1) \<Rightarrow> (v, cm\<lparr>cm_provider := provider1\<rparr>, w1)))"

definition CacheManager_set ::
  "CacheManager \<Rightarrow> string \<Rightarrow> ref \<Rightarrow> int option \<Rightarrow> world \<Rightarrow> CacheManager \<times> world" where
  "CacheManager_set cm key v options_ttl w =
     (if \<not> cm_enabled cm then (cm, w)
      else
        (let fullKey = cm_keyPrefix cm @ key;
             ttl = int_or options_ttl (cm_defaultTTL cm)
         in case MemoryCacheProvider_set (cm_provider cm) fullKey v (Some ttl) w of
              (provider1, w1) \<Rightarrow> (cm\<lparr>cm_provider := provider1\<rparr>, w1)))"

text \<open>\<open>[prefix, ...parts].join(':')\<close>.\<close>

fun join_colon :: "string list \<Rightarrow> string" where
  "join_colon [] = []"
| "join_colon [p] = p"
| "join_colon (p # q # ps) = p @ '':'' @ join_colon (q # ps)"

definition generateKey :: "string \<Rightarrow> string list \<Rightarrow> string" where
  "generateKey prefix parts = join_colon (prefix # parts)"

section \<open>JoinBuilder and FilterBuilder\<close>

datatype includeable =
  Includeable string "bool option" "string list option" "whereobj option" "string option"
    "includeable list option"

record JoinOptions =
  jo_model :: string
  jo_as :: "string option"
  jo_required :: "bool option"
  jo_attributes :: "string list option"
  jo_where :: "whereobj option"
  jo_include :: "includeable list option"

text \<open>
  \<open>addJoins\<close> validates and stores the joins one by one; a join without a model stops
  it with a \<open>QueryError\<close>, the joins before it staying stored.
\<close>

fun addJoins :: "JoinOptions list \<Rightarrow> JoinOptions list \<Rightarrow> JoinOptions list \<times> thrown option" where
  "addJoins stored [] = (stored, None)"
| "addJoins stored (j # js) =
     (if jo_model j = [] then (stored, Some (JoinError ''INVALID_JOIN_MODEL''))
      else addJoins (stored @ [j]) js)"

definition buildInclude :: "JoinOptions \<Rightarrow> includeable" where
  "buildInclude j =
     Includeable (jo_model j) (jo_required j) (jo_attributes j) (jo_where j)
       (if truthy (jo_as j) then jo_as j else None)
       (case jo_include j of
          None \<Rightarrow> None
        | Some incs \<Rightarrow> if length incs > 0 then Some incs else None)"

definition JoinBuilder_build :: "JoinOptions list \<Rightarrow> includeable list" where
  "JoinBuilder_build joins = map buildInclude joins"

definition FilterBuilder_processFromOptions :: "FilterSchema \<Rightarrow> FilterOptions \<Rightarrow> FilterResult" where
  "FilterBuilder_processFromOptions schema options =
     (let searchPart =
            (case fo_searchFields options of
               None \<Rightarrow> []
             | Some searchFields \<Rightarrow>
                 if truthy (fo_search options) then
                   [\<lparr> fc_field = ''__search__'', fc_operator = ''or'',
                      fc_value =
                        JArr (map (\<lambda>field.
                                JObj [(''field'', JStr field), (''operator'', JStr ''contains''),
                                      (''value'', JStr (str_of (fo_search options))),
                                      (''caseSensitive'', JBool False)])
                              searchFields),
                      fc_caseSensitive = None \<rparr>]
                 else []);
          others =
            map (\<lambda>(key, v). \<lparr> fc_field = key, fc_operator = ''eq'', fc_value = v,
                               fc_caseSensitive = None \<rparr>)
              (filter (\<lambda>(key, v). v \<noteq> JUndefined \<and> v \<noteq> JNull) (fo_entries options))
      in FilterProcessor_process schema (FilterArray (searchPart @ others)))"

section \<open>AdvancedQueryBuilder\<close>

type_synonym row = "(string \<times> jsval) list"

record Performance =
  perf_executionTime :: int
  perf_queryCount :: int
  perf_cacheHit :: bool

record QueryResult =
  qr_data :: "row list"
  qr_count :: "number option"
  qr_pagination :: "PaginationMeta option"
  qr_performance :: "Performance option"

record AdvancedQueryOptions =
  ao_pagination :: "PaginationOptions option"
  ao_filters :: "FilterOptions option"
  ao_sorting :: "SortCondition list option"
  ao_joins :: "JoinOptions list option"
  ao_attributes :: "string list option"
  ao_where :: "whereobj option"
  ao_group :: "string list option"
  ao_having :: "whereobj option"
  ao_distinct :: "bool option"
  ao_subQuery :: "bool option"
  ao_benchmark :: "bool option"
  ao_logging :: "bool option"

text \<open>The query options handed to the record store.\<close>

record QueryOptions =
  qo_offset :: "jsnum option"
  qo_limit :: "number option"
  qo_where :: "whereobj option"
  qo_order :: "order_value option"
  qo_include :: "includeable list option"
  qo_attributes :: "string list option"
  qo_group :: "string list option"
  qo_having :: "whereobj option"
  qo_distinct :: "bool option"
  qo_subQuery :: "bool option"
  qo_benchmark :: "bool option"
  qo_logging :: "bool option"

text \<open>
  The record store is outside the program: \<open>findAll\<close> and \<open>count\<close> answer a query
  with rows or a number, or throw.
\<close>

record Model =
  model_name :: string
  model_findAll :: "QueryOptions \<Rightarrow> js_throw + row list"
  model_count :: "QueryOptions \<Rightarrow> js_throw + number"

text \<open>The configuration keys the constructor reads.\<close>

record QueryConfig =
  qc_pagination :: PartialPaginationConfig
  qc_enableCaching :: "bool option"
  qc_cacheTTL :: "int option"
  qc_enablePerformanceMonitoring :: "bool option"
  qc_performanceThreshold :: "int option"

text \<open>
  The builder with its parts. \<open>aqb_heap\<close> holds the result objects \<open>execute\<close> has
  created; \<open>aqb_joins\<close> is the working set of the join builder, \<open>aqb_filterSchema\<close>
  the schema of the filter builder's processor.
\<close>

record AdvancedQueryBuilder =
  aqb_model :: Model
  aqb_requestId :: string
  aqb_paginationBuilder :: PaginationConfig
  aqb_filterSchema :: FilterSchema
  aqb_sortProcessor :: SortProcessor
  aqb_joins :: "JoinOptions list"
  aqb_cacheManager :: CacheManager
  aqb_performanceMonitor :: PerformanceMonitor
  aqb_currentOptions :: AdvancedQueryOptions
  aqb_heap :: "QueryResult list"

definition empty_options :: AdvancedQueryOptions where
  "empty_options =
     \<lparr> ao_pagination = None, ao_filters = None, ao_sorting = None, ao_joins = None,
       ao_attributes = None, ao_where = None, ao_group = None, ao_having = None,
       ao_distinct = None, ao_subQuery = None, ao_benchmark = None, ao_logging = None \<rparr>"

definition new_AdvancedQueryBuilder :: "Model \<Rightarrow> QueryConfig \<Rightarrow> string \<Rightarrow> AdvancedQueryBuilder" where
  "new_AdvancedQueryBuilder model config requestId =
     \<lparr> aqb_model = model,
       aqb_requestId = requestId,
       aqb_paginationBuilder = new_PaginationBuilder (qc_pagination config),
       aqb_filterSchema = Map.empty,
       aqb_sortProcessor = new_SortProcessor,
       aqb_joins = [],
       aqb_cacheManager =
         new_CacheManager (new_MemoryCacheProvider None) (qc_enableCaching config)
           (qc_cacheTTL config),
       aqb_performanceMonitor =
         new_PerformanceMonitor (qc_enablePerformanceMonitoring config)
           (qc_performanceThreshold config),
       aqb_currentOptions = empty_options,
       aqb_heap = [] \<rparr>"

definition withPagination :: "AdvancedQueryBuilder \<Rightarrow> PaginationOptions \<Rightarrow> thrown + AdvancedQueryBuilder" where
  "withPagination b options =
     (case validatePagination options (Some (aqb_requestId b)) of
        Inl e \<Rightarrow> Inl e
      | Inr data \<Rightarrow>
          Inr (b\<lparr>aqb_currentOptions := (aqb_currentOptions b)\<lparr>ao_pagination := Some data\<rparr>\<rparr>))"

definition withSorting :: "AdvancedQueryBuilder \<Rightarrow> SortCondition \<Rightarrow> thrown + AdvancedQueryBuilder" where
  "withSorting b options =
     (case validateSorting options (Some (aqb_requestId b)) of
        Inl e \<Rightarrow> Inl e
      | Inr data \<Rightarrow>
          Inr (b\<lparr>aqb_currentOptions := (aqb_currentOptions b)\<lparr>ao_sorting := Some [data]\<rparr>\<rparr>))"

text \<open>\<open>withSortings\<close> throws the error of the first sort that fails validation.\<close>

fun first_error :: "(thrown + 'a) list \<Rightarrow> thrown option" where
  "first_error [] = None"
| "first_error (Inl e # vs) = Some e"
| "first_error (Inr d # vs) = first_error vs"

fun validation_data :: "(thrown + 'a) list \<Rightarrow> 'a list" where
  "validation_data [] = []"
| "validation_data (Inl e # vs) = validation_data vs"
| "validation_data (Inr d # vs) = d # validation_data vs"

definition withSortings :: "AdvancedQueryBuilder \<Rightarrow> SortCondition list \<Rightarrow> thrown + AdvancedQueryBuilder" where
  "withSortings b sorts =
     (let validations = map (\<lambda>sort. validateSorting sort (Some (aqb_requestId b))) sorts in
      case first_error validations of
        Some e \<Rightarrow> Inl e
      | None \<Rightarrow>
          Inr (b\<lparr>aqb_currentOptions :=
                   (aqb_currentOptions b)\<lparr>ao_sorting := Some (validation_data validations)\<rparr>\<rparr>))"

text \<open>\<open>{ ...a, ...b }\<close>: the keys of \<open>a\<close>, with the values of \<open>b\<close> where it has the key, then the new keys of \<open>b\<close>.\<close>

fun obj_put :: "wkey \<Rightarrow> wvalue \<Rightarrow> whereobj \<Rightarrow> whereobj" where
  "obj_put k v [] = [(k, v)]"
| "obj_put k v ((k1, v1) # kvs) = (if k = k1 then (k, v) # kvs else (k1, v1) # obj_put k v kvs)"

definition spread :: "whereobj \<Rightarrow> whereobj \<Rightarrow> whereobj" where
  "spread a b = foldl (\<lambda>acc (k, v). obj_put k v acc) a b"

definition empty_query_options :: QueryOptions where
  "empty_query_options =
     \<lparr> qo_offset = None, qo_limit = None, qo_where = None, qo_order = None,
       qo_include = None, qo_attributes = None, qo_group = None, qo_having = None,
       qo_distinct = None, qo_subQuery = None, qo_benchmark = None, qo_logging = None \<rparr>"

text \<open>
  \<open>buildQueryOptions\<close>, block by block as the source has it: pagination, filters,
  sorting, joins, and the options passed through.
\<close>

definition handle_pagination :: "AdvancedQueryBuilder \<Rightarrow> QueryOptions \<Rightarrow> thrown + QueryOptions" where
  "handle_pagination b options =
     (case ao_pagination (aqb_currentOptions b) of
        None \<Rightarrow> Inr options
      | Some p \<Rightarrow>
          (case PaginationBuilder_process (aqb_paginationBuilder b) p of
             Inl e \<Rightarrow> Inl (PaginationThrown e)
           | Inr pagination \<Rightarrow>
               Inr (options\<lparr>qo_offset := Some (pp_offset pagination),
                            qo_limit := Some (pp_limit pagination)\<rparr>)))"

definition handle_filters :: "AdvancedQueryBuilder \<Rightarrow> QueryOptions \<Rightarrow> thrown + QueryOptions" where
  "handle_filters b options =
     (case ao_filters (aqb_currentOptions b) of
        None \<Rightarrow> Inr options
      | Some f \<Rightarrow>
          (let filterResult = FilterBuilder_processFromOptions (aqb_filterSchema b) f in
           if length (fr_errors filterResult) > 0 then
             Inl (ValidationError ''FILTER_PROCESSING_ERROR'' None (FiltersValue f)
                    (ProcessingErrors (fr_errors filterResult)) (Some (aqb_requestId b)))
           else Inr (options\<lparr>qo_where := Some (fr_where filterResult)\<rparr>)))"

text \<open>
  Only \<open>sorting[0]\<close> is handed to the sort builder; the error thrown for its errors
  quotes the whole of \<open>sorting\<close>.
\<close>

definition handle_sorting :: "AdvancedQueryBuilder \<Rightarrow> QueryOptions \<Rightarrow> thrown + QueryOptions" where
  "handle_sorting b options =
     (case ao_sorting (aqb_currentOptions b) of
        None \<Rightarrow> Inr options
      | Some sorting \<Rightarrow>
          (case SortBuilder_processFromOptions (aqb_sortProcessor b)
                  (case sorting of [] \<Rightarrow> None | s # rest \<Rightarrow> Some s) of
             Inl t \<Rightarrow> Inl (JsThrow t)
           | Inr sortResult \<Rightarrow>
               if length (sr_errors sortResult) > 0 then
                 Inl (ValidationError ''SORT_PROCESSING_ERROR'' None (SortingValue sorting)
                        (ProcessingErrors (sr_errors sortResult)) (Some (aqb_requestId b)))
               else Inr (options\<lparr>qo_order := Some (sr_order sortResult)\<rparr>)))"

definition handle_joins ::
  "AdvancedQueryBuilder \<Rightarrow> QueryOptions \<Rightarrow> AdvancedQueryBuilder \<times> (thrown + QueryOptions)" where
  "handle_joins b options =
     (case ao_joins (aqb_currentOptions b) of
        None \<Rightarrow> (b, Inr options)
      | Some joins \<Rightarrow>
          (case addJoins (aqb_joins b) joins of
             (stored, Some e) \<Rightarrow> (b\<lparr>aqb_joins := stored\<rparr>, Inl e)
           | (stored, None) \<Rightarrow>
               (b\<lparr>aqb_joins := stored\<rparr>,
                Inr (options\<lparr>qo_include := Some (JoinBuilder_build stored)\<rparr>))))"

definition handle_other_options :: "AdvancedQueryBuilder \<Rightarrow> QueryOptions \<Rightarrow> QueryOptions" where
  "handle_other_options b options =
     (let current = aqb_currentOptions b;
          o1 = (case ao_attributes current of
                  None \<Rightarrow> options
                | Some attributes \<Rightarrow> options\<lparr>qo_attributes := Some attributes\<rparr>);
          o2 = (case ao_where current of
                  None \<Rightarrow> o1
                | Some wh \<Rightarrow>
                    o1\<lparr>qo_where :=
                         Some (spread (case qo_where o1 of None \<Rightarrow> [] | Some w0 \<Rightarrow> w0) wh)\<rparr>);
          o3 = (case ao_group current of
                  None \<Rightarrow> o2
                | Some g \<Rightarrow> o2\<lparr>qo_group := Some g\<rparr>);
          o4 = (case ao_having current of
                  None \<Rightarrow> o3
                | Some h \<Rightarrow> o3\<lparr>qo_having := Some h\<rparr>);
          o5 = (if ao_distinct current = Some True then o4\<lparr>qo_distinct := Some True\<rparr> else o4);
          o6 = (case ao_subQuery current of
                  None \<Rightarrow> o5
                | Some sq \<Rightarrow> o5\<lparr>qo_subQuery := Some sq\<rparr>);
          o7 = (case ao_benchmark current of
                  None \<Rightarrow> o6
                | Some bm \<Rightarrow> o6\<lparr>qo_benchmark := Some bm\<rparr>);
          o8 = (case ao_logging current of
                  None \<Rightarrow> o7
                | Some lg \<Rightarrow> o7\<lparr>qo_logging := Some lg\<rparr>)
      in o8)"

definition buildQueryOptions ::
  "AdvancedQueryBuilder \<Rightarrow> AdvancedQueryBuilder \<times> (thrown + QueryOptions)" where
  "buildQueryOptions b =
     (case handle_pagination b empty_query_options of
        Inl e \<Rightarrow> (b, Inl e)
      | Inr o1 \<Rightarrow>
          (case handle_filters b o1 of
             Inl e \<Rightarrow> (b, Inl e)
           | Inr o2 \<Rightarrow>
               (case handle_sorting b o2 of
                  Inl e \<Rightarrow> (b, Inl e)
                | Inr o3 \<Rightarrow>
                    (case handle_joins b o3 of
                       (b1, Inl e) \<Rightarrow> (b1, Inl e)
                     | (b1, Inr o4) \<Rightarrow> (b1, Inr (handle_other_options b1 o4))))))"

text \<open>\<open>getTotalCount\<close>: the count query drops offset, limit, order and attributes.\<close>

definition getTotalCount ::
  "AdvancedQueryBuilder \<Rightarrow> QueryOptions \<Rightarrow> world \<Rightarrow> (js_throw + number) \<times> world" where
  "getTotalCount b queryOptions w =
     (let countOptions = queryOptions\<lparr>qo_offset := None, qo_limit := None, qo_order := None,
                                       qo_attributes := None\<rparr>
      in (model_count (aqb_model b) countOptions, w\<lparr>w_countCalls := Suc (w_countCalls w)\<rparr>))"

text \<open>
  The cache key. \<open>JSON.stringify\<close> belongs to the language; the model takes it as the
  parameter \<open>stringify\<close>.
\<close>

definition generateCacheKey ::
  "(AdvancedQueryOptions \<Rightarrow> string) \<Rightarrow> AdvancedQueryBuilder \<Rightarrow> string \<Rightarrow> string" where
  "generateCacheKey stringify b suffix =
     generateKey ''query''
       [model_name (aqb_model b), stringify (aqb_currentOptions b), suffix]"

text \<open>
  \<open>execute\<close>, in parts. \<open>execute_result\<close> is the \<open>// Handle pagination\<close> block:
  it makes the result object. \<open>execute_query\<close> runs from \<open>// Build query options\<close>
  to that block. \<open>execute_finish\<close> is the rest of the \<open>try\<close>: it puts the result
  object on the heap, caches the reference, ends the monitoring and writes the metrics
  into the object. \<open>execute_try\<close> is the whole body of the \<open>try\<close>, and returns the
  reference to the result or what was thrown. \<open>execute\<close> starts the monitoring, runs
  the body, and in the \<open>catch\<close> ends the monitoring and wraps the error.
\<close>

definition execute_result ::
  "AdvancedQueryBuilder \<Rightarrow> QueryOptions \<Rightarrow> row list \<Rightarrow> int \<Rightarrow> world \<Rightarrow> (thrown + QueryResult) \<times> world" where
  "execute_result b queryOptions result executionTime w =
     (case ao_pagination (aqb_currentOptions b) of
        Some p \<Rightarrow>
          (case PaginationBuilder_process (aqb_paginationBuilder b) p of
             Inl e \<Rightarrow> (Inl (PaginationThrown e), w)
           | Inr pagination \<Rightarrow>
               (case getTotalCount b queryOptions w of
                  (Inl t, w1) \<Rightarrow> (Inl (JsThrow t), w1)
                | (Inr totalCount, w1) \<Rightarrow>
                    (let r = buildResult result totalCount (pp_page pagination)
                               (pp_pageSize pagination)
                     in (Inr \<lparr> qr_data = result_data r, qr_count = None,
                               qr_pagination = Some (result_pagination r),
                               qr_performance = None \<rparr>, w1))))
      | None \<Rightarrow>
          (Inr \<lparr> qr_data = result, qr_count = None, qr_pagination = None,
                 qr_performance =
                   Some \<lparr> perf_executionTime = executionTime, perf_queryCount = 1,
                          perf_cacheHit = False \<rparr> \<rparr>, w))"

definition execute_query ::
  "AdvancedQueryBuilder \<Rightarrow> string \<Rightarrow> world
     \<Rightarrow> (thrown + QueryResult) \<times> AdvancedQueryBuilder \<times> world" where
  "execute_query b monitorId w =
     (case buildQueryOptions b of
        (b2, Inl e) \<Rightarrow> (Inl e, b2, w)
      | (b2, Inr queryOptions) \<Rightarrow>
          (case Date_now w of
             (startTime, w2) \<Rightarrow>
               (let w3 = w2\<lparr>w_findAllCalls := Suc (w_findAllCalls w2)\<rparr> in
                case model_findAll (aqb_model b2) queryOptions of
                  Inl t \<Rightarrow> (Inl (JsThrow t), b2, w3)
                | Inr result \<Rightarrow>
                    (case Date_now w3 of
                       (endTime, w4) \<Rightarrow>
                         (let executionTime = endTime - startTime;
                              b3 = b2\<lparr>aqb_performanceMonitor :=
                                       recordQueryExecution (aqb_performanceMonitor b2)
                                         monitorId executionTime\<rparr>
                          in case execute_result b3 queryOptions result executionTime w4 of
                               (finalResult, w5) \<Rightarrow> (finalResult, b3, w5))))))"

definition execute_finish ::
  "AdvancedQueryBuilder \<Rightarrow> string \<Rightarrow> string \<Rightarrow> QueryResult \<Rightarrow> world
     \<Rightarrow> ref \<times> AdvancedQueryBuilder \<times> world" where
  "execute_finish b cacheKey monitorId finalResult w =
     (let r = length (aqb_heap b);
          b4 = b\<lparr>aqb_heap := aqb_heap b @ [finalResult]\<rparr>
      in case (if cm_enabled (aqb_cacheManager b4) then
                 CacheManager_set (aqb_cacheManager b4) cacheKey r None w
               else (aqb_cacheManager b4, w)) of
           (cm2, w6) \<Rightarrow>
             (case endMonitoring (aqb_performanceMonitor b4) monitorId w6 of
                (metrics, pm1, w7) \<Rightarrow>
                  (r,
                   b4\<lparr>aqb_cacheManager := cm2,
                      aqb_performanceMonitor := pm1,
                      aqb_heap :=
                        (case metrics of
                           None \<Rightarrow> aqb_heap b4
                         | Some m \<Rightarrow>
                             (aqb_heap b4)[r :=
                                finalResult\<lparr>qr_performance :=
                                  Some \<lparr> perf_executionTime = totalExecutionTime m,
                                         perf_queryCount = queryCount m,
                                         perf_cacheHit = False \<rparr>\<rparr>])\<rparr>,
                   w7)))"

definition execute_try ::
  "(AdvancedQueryOptions \<Rightarrow> string) \<Rightarrow> AdvancedQueryBuilder \<Rightarrow> string \<Rightarrow> world
     \<Rightarrow> (thrown + ref) \<times> AdvancedQueryBuilder \<times> world" where
  "execute_try stringify b monitorId w =
     (let cacheKey = generateCacheKey stringify b [] in
      case (if cm_enabled (aqb_cacheManager b) then
              CacheManager_get (aqb_cacheManager b) cacheKey w
            else (None, aqb_cacheManager b, w)) of
        (Some cached, cm1, w1) \<Rightarrow>
          (Inr cached,
           b\<lparr>aqb_cacheManager := cm1,
             aqb_performanceMonitor := recordCacheHit (aqb_performanceMonitor b) monitorId\<rparr>,
           w1)
      | (None, cm1, w1) \<Rightarrow>
          (case execute_query (b\<lparr>aqb_cacheManager := cm1\<rparr>) monitorId w1 of
             (Inl e, b3, w5) \<Rightarrow> (Inl e, b3, w5)
           | (Inr finalResult, b3, w5) \<Rightarrow>
               (case execute_finish b3 cacheKey monitorId finalResult w5 of
                  (r, b5, w7) \<Rightarrow> (Inr r, b5, w7))))"

definition execute ::
  "(AdvancedQueryOptions \<Rightarrow> string) \<Rightarrow> AdvancedQueryBuilder \<Rightarrow> world
     \<Rightarrow> (thrown + ref) \<times> AdvancedQueryBuilder \<times> world" where
  "execute stringify b w =
     (case Date_now w of
        (startTime, w0) \<Rightarrow>
          (let context = \<lparr> ctx_method = ''findAll'', ctx_modelName = model_name (aqb_model b),
                           ctx_startTime = startTime, ctx_requestId = aqb_requestId b \<rparr>
           in case startMonitoring (aqb_performanceMonitor b) context w0 of
                (monitorId, pm1, w1) \<Rightarrow>
                  (case execute_try stringify (b\<lparr>aqb_performanceMonitor := pm1\<rparr>) monitorId w1 of
                     (Inr r, b1, w2) \<Rightarrow> (Inr r, b1, w2)
                   | (Inl e, b1, w2) \<Rightarrow>
                       (case endMonitoring (aqb_performanceMonitor b1) monitorId w2 of
                          (metrics, pm2, w3) \<Rightarrow>
                            (Inl (QueryError ''ADVANCED_QUERY_ERROR'' e),
                             b1\<lparr>aqb_performanceMonitor := pm2\<rparr>, w3)))))"

section \<open>Notions used in the statements\<close>

text \<open>
  The time an entry written by \<open>execute\<close> lives, in milliseconds: \<open>CacheManager.set\<close>
  is called without options, so the time to live is \<open>this.defaultTTL\<close> of the manager,
  and the provider falls back to its own default where that is falsy.
\<close>

definition cache_ttl_ms :: "CacheManager \<Rightarrow> int" where
  "cache_ttl_ms cm =
     int_or (Some (int_or None (cm_defaultTTL cm))) (mc_defaultTTL (cm_provider cm)) * 1000"

text \<open>\<open>result.performance?.cacheHit\<close>: absent when the result has no \<open>performance\<close>.\<close>

definition cacheHit_flag :: "QueryResult \<Rightarrow> bool option" where
  "cacheHit_flag r = map_option perf_cacheHit (qr_performance r)"

section \<open>Concrete inputs\<close>

definition default_pagination_config :: PaginationConfig where
  "default_pagination_config =
     new_PaginationBuilder \<lparr> cfg_defaultPageSize = None, cfg_maxPageSize = None,
       cfg_enableOffset = None, cfg_enableCursor = None \<rparr>"

definition page_two_of_twenty :: PaginationOptions where
  "page_two_of_twenty =
     \<lparr> opt_page = Some 2, opt_pageSize = Some 20, opt_offset = None, opt_limit = None,
       opt_cursor = None, opt_direction = None \<rparr>"

text \<open>The last page number that is a safe integer, \<open>2^53 - 1\<close>, with 99 rows to a page.\<close>

definition last_safe_page :: PaginationOptions where
  "last_safe_page =
     \<lparr> opt_page = Some 9007199254740991, opt_pageSize = Some 99, opt_offset = None,
       opt_limit = None, opt_cursor = None, opt_direction = None \<rparr>"

definition age_not :: FilterCondition where
  "age_not = \<lparr> fc_field = ''age'', fc_operator = ''not'', fc_value = num 1,
     fc_caseSensitive = None \<rparr>"

definition id_and :: FilterCondition where
  "id_and = \<lparr> fc_field = ''id'', fc_operator = ''and'', fc_value = JArr [],
     fc_caseSensitive = None \<rparr>"

definition name_notLike :: FilterCondition where
  "name_notLike = \<lparr> fc_field = ''name'', fc_operator = ''notLike'', fc_value = JStr ''a%'',
     fc_caseSensitive = None \<rparr>"

definition name_contains :: FilterCondition where
  "name_contains = \<lparr> fc_field = ''name'', fc_operator = ''contains'', fc_value = JStr ''ann'',
     fc_caseSensitive = None \<rparr>"

definition name_like :: FilterCondition where
  "name_like = \<lparr> fc_field = ''name'', fc_operator = ''like'', fc_value = JStr ''a%'',
     fc_caseSensitive = None \<rparr>"

definition age_between_18 :: FilterCondition where
  "age_between_18 = \<lparr> fc_field = ''age'', fc_operator = ''between'', fc_value = num 18,
     fc_caseSensitive = None \<rparr>"

definition age_between_null :: FilterCondition where
  "age_between_null = \<lparr> fc_field = ''age'', fc_operator = ''between'', fc_value = JNull,
     fc_caseSensitive = None \<rparr>"

definition status_in_active :: FilterCondition where
  "status_in_active = \<lparr> fc_field = ''status'', fc_operator = ''in'',
     fc_value = JStr ''active'', fc_caseSensitive = None \<rparr>"

definition status_in_null :: FilterCondition where
  "status_in_null = \<lparr> fc_field = ''status'', fc_operator = ''in'', fc_value = JNull,
     fc_caseSensitive = None \<rparr>"

text \<open>A clock that reads 0 at the first call and 5000 at every later one.\<close>

definition clock_0_then_5000 :: "nat \<Rightarrow> int" where
  "clock_0_then_5000 k = (if k = 0 then 0 else 5000)"

definition world_0_then_5000 :: world where
  "world_0_then_5000 =
     \<lparr> w_clock = clock_0_then_5000, w_reads = 0, w_console = [], w_findAllCalls = 0,
       w_countCalls = 0 \<rparr>"

definition find_users_context :: QueryContext where
  "find_users_context =
     \<lparr> ctx_method = ''findAll'', ctx_modelName = ''User'', ctx_startTime = 0,
       ctx_requestId = ''req_1'' \<rparr>"

text \<open>One monitoring session with the threshold 1000: a start, then an end.\<close>

definition session_start :: "string \<times> PerformanceMonitor \<times> world" where
  "session_start =
     startMonitoring (new_PerformanceMonitor (Some True) (Some 1000)) find_users_context
       world_0_then_5000"

definition session_end :: "PerformanceMetrics option \<times> PerformanceMonitor \<times> world" where
  "session_end =
     endMonitoring (fst (snd session_start)) (fst session_start) (snd (snd session_start))"

text \<open>A record store with one user, and a builder over it with caching enabled.\<close>

definition user_row :: row where
  "user_row = [(''id'', num 1)]"

definition users_model :: Model where
  "users_model =
     \<lparr> model_name = ''User'', model_findAll = (\<lambda>q. Inr [user_row]),
       model_count = (\<lambda>q. Inr 1) \<rparr>"

definition caching_config :: QueryConfig where
  "caching_config =
     \<lparr> qc_pagination = \<lparr> cfg_defaultPageSize = None, cfg_maxPageSize = None,
          cfg_enableOffset = None, cfg_enableCursor = None \<rparr>,
       qc_enableCaching = Some True, qc_cacheTTL = None,
       qc_enablePerformanceMonitoring = None, qc_performanceThreshold = None \<rparr>"

definition fresh_builder :: AdvancedQueryBuilder where
  "fresh_builder = new_AdvancedQueryBuilder users_model caching_config ''req_1''"

definition offset_forty :: PaginationOptions where
  "offset_forty =
     \<lparr> opt_page = None, opt_pageSize = None, opt_offset = Some 40, opt_limit = Some 20,
       opt_cursor = None, opt_direction = None \<rparr>"

definition page_and_offset :: PaginationOptions where
  "page_and_offset =
     \<lparr> opt_page = Some 2, opt_pageSize = Some 20, opt_offset = Some 40, opt_limit = Some 20,
       opt_cursor = None, opt_direction = None \<rparr>"

definition paged_builder :: AdvancedQueryBuilder where
  "paged_builder =
     fresh_builder\<lparr>aqb_currentOptions :=
       empty_options\<lparr>ao_pagination := Some page_two_of_twenty\<rparr>\<rparr>"

definition createdAt_desc :: SortCondition where
  "createdAt_desc = \<lparr> sc_column = Some ''createdAt'', sc_order = Some ''DESC'',
     sc_nulls = None, sc_caseSensitive = None \<rparr>"

definition name_asc :: SortCondition where
  "name_asc = \<lparr> sc_column = Some ''name'', sc_order = Some ''ASC'',
     sc_nulls = None, sc_caseSensitive = None \<rparr>"

definition sorted_builder :: AdvancedQueryBuilder where
  "sorted_builder =
     fresh_builder\<lparr>aqb_currentOptions :=
       empty_options\<lparr>ao_sorting := Some [createdAt_desc, name_asc]\<rparr>\<rparr>"

text \<open>
  Two executions in a row of the empty specification, which \<open>JSON.stringify\<close> prints
  as \<open>{}\<close>, on a clock that advances by one millisecond at each reading.
\<close>

definition stringify_plain :: "AdvancedQueryOptions \<Rightarrow> string" where
  "stringify_plain options = ''{}''"

definition world_ticking :: world where
  "world_ticking =
     \<lparr> w_clock = (\<lambda>k. int k), w_reads = 0, w_console = [], w_findAllCalls = 0,
       w_countCalls = 0 \<rparr>"

definition first_run :: "(thrown + ref) \<times> AdvancedQueryBuilder \<times> world" where
  "first_run = execute stringify_plain fresh_builder world_ticking"

definition second_run :: "(thrown + ref) \<times> AdvancedQueryBuilder \<times> world" where
  "second_run = execute stringify_plain (fst (snd first_run)) (snd (snd first_run))"

section \<open>Rounding to a double\<close>

lemma floor_log2_le:
  assumes "0 < x"
  shows "2 powi (floor_log2 x) \<le> x"
proof (cases "1 \<le> x")
  case True
  then have pos: "0 < \<lfloor>x\<rfloor>" by linarith
  have nn: "0 \<le> bitlen \<lfloor>x\<rfloor> - 1"
    using pos bitlen_bounds [OF pos] by (simp add: bitlen_alt_def)
  have "(2::int) ^ nat (bitlen \<lfloor>x\<rfloor> - 1) \<le> \<lfloor>x\<rfloor>"
    using bitlen_bounds [OF pos] by simp
  then have "(of_int ((2::int) ^ nat (bitlen \<lfloor>x\<rfloor> - 1)) :: rat) \<le> of_int \<lfloor>x\<rfloor>"
    by (simp only: of_int_le_iff)
  also have "\<dots> \<le> x" by simp
  finally show ?thesis
    using True nn by (simp add: floor_log2_def power_int_def)
next
  case False
  then have lt: "x < 1" by simp
  let ?M = "\<lceil>1 / x\<rceil>"
  have inv: "1 < 1 / x" using assms lt by simp
  then have M2: "2 \<le> ?M" by linarith
  then have pos: "0 < ?M - 1" by simp
  have "?M - 1 < 2 ^ nat (bitlen (?M - 1))"
    using bitlen_bounds [OF pos] by simp
  then have "?M \<le> 2 ^ nat (bitlen (?M - 1))" by simp
  then have "(of_int ?M :: rat) \<le> of_int (2 ^ nat (bitlen (?M - 1)))"
    by (simp only: of_int_le_iff)
  then have "(of_int ?M :: rat) \<le> 2 ^ nat (bitlen (?M - 1))"
    by simp
  moreover have "1 / x \<le> of_int ?M" by (rule le_of_int_ceiling)
  ultimately have le: "1 / x \<le> 2 ^ nat (bitlen (?M - 1))" by (rule order_trans [rotated])
  have "1 / 2 ^ nat (bitlen (?M - 1)) \<le> x"
    using le assms by (simp add: field_simps)
  moreover have "0 \<le> bitlen (?M - 1)" by (rule bitlen_nonneg)
  then have "(2::rat) powi (bitlen (?M - 1)) = 2 ^ nat (bitlen (?M - 1))"
    by (simp add: power_int_def)
  ultimately show ?thesis
    using False by (simp add: floor_log2_def power_int_minus inverse_eq_divide)
qed

lemma floor_log2_less:
  assumes "0 < x" and "x < 2 ^ n"
  shows "floor_log2 x < int n"
proof (rule ccontr)
  assume "\<not> floor_log2 x < int n"
  then have "int n \<le> floor_log2 x" by simp
  then have "(2::rat) powi (int n) \<le> 2 powi (floor_log2 x)"
    by (intro power_int_increasing) simp_all
  also have "\<dots> \<le> x" using assms(1) by (rule floor_log2_le)
  finally show False using assms(2) by simp
qed

lemma powi_nonpos:
  assumes "e \<le> 0"
  shows "(2::rat) powi e = 1 / 2 ^ nat (- e)"
proof -
  have "(2::rat) powi (- (- e)) = inverse (2 powi (- e))"
    by (rule power_int_minus)
  moreover have "(2::rat) powi (- e) = 2 ^ nat (- e)"
    using assms by (simp add: power_int_def)
  ultimately show ?thesis by (simp add: inverse_eq_divide)
qed

lemma round_half_even_of_int [simp]: "round_half_even (of_int j) = j"
  by (simp add: round_half_even_def)

lemma round_half_even_le: "y \<le> of_int j \<Longrightarrow> round_half_even y \<le> j"
proof -
  assume a: "y \<le> of_int j"
  show ?thesis
  proof (cases "y = of_int j")
    case True
    then show ?thesis by simp
  next
    case False
    then have "y < of_int j" using a by simp
    then have "\<lfloor>y\<rfloor> < j" by (simp add: floor_less_iff)
    then show ?thesis by (auto simp add: round_half_even_def Let_def)
  qed
qed

lemma round_half_even_up: "of_int j + 1 / 2 < y \<Longrightarrow> j + 1 \<le> round_half_even y"
proof -
  assume a: "of_int j + 1 / 2 < y"
  then have f: "j \<le> \<lfloor>y\<rfloor>" by (simp add: le_floor_iff)
  show ?thesis
  proof (cases "j = \<lfloor>y\<rfloor>")
    case True
    then have "1 / 2 < y - of_int \<lfloor>y\<rfloor>" using a by simp
    then show ?thesis using True by (auto simp add: round_half_even_def Let_def)
  next
    case False
    then have "j + 1 \<le> \<lfloor>y\<rfloor>" using f by simp
    then show ?thesis by (auto simp add: round_half_even_def Let_def)
  qed
qed

text \<open>
  Below \<open>2^53\<close> the multiples a number is rounded to are those of \<open>1 / 2^m\<close> for some
  \<open>m\<close>, which is fine enough to keep 53 significant bits.
\<close>

lemma to_double_scaled:
  assumes "0 < x" and "x < 2 ^ 53"
  shows "\<exists>m. to_double x =
           (if (2::rat) ^ 1024 \<le> \<bar>of_int (round_half_even (x * 2 ^ m)) / 2 ^ m\<bar> then PosInfinity
            else Num (of_int (round_half_even (x * 2 ^ m)) / 2 ^ m))
         \<and> (1 / 2 ^ m \<le> x / 2 ^ 52 \<or> m = 1074)"
proof -
  define e where "e = max (floor_log2 x - 52) (- 1074)"
  have fl: "floor_log2 x < 53"
    using floor_log2_less [OF assms] by simp
  then have e0: "e \<le> 0" by (simp add: e_def)
  note pe = powi_nonpos [OF e0]
  have a: "\<bar>x\<bar> = x" using assms(1) by simp
  have td: "to_double x =
           (if (2::rat) ^ 1024 \<le> \<bar>of_int (round_half_even (x * 2 ^ nat (- e))) / 2 ^ nat (- e)\<bar> then PosInfinity
            else Num (of_int (round_half_even (x * 2 ^ nat (- e))) / 2 ^ nat (- e)))"
    using assms(1) by (simp add: to_double_def a e_def [symmetric] pe Let_def)
  have "1 / 2 ^ nat (- e) \<le> x / 2 ^ 52 \<or> nat (- e) = 1074"
  proof (cases "e = - 1074")
    case True
    then show ?thesis by simp
  next
    case False
    then have "e = floor_log2 x - 52" by (simp add: e_def max_def split: if_splits)
    then have "(2::rat) powi e = 2 powi (floor_log2 x) / 2 powi 52"
      by (simp add: power_int_diff)
    also have "\<dots> \<le> x / 2 ^ 52"
      using floor_log2_le [OF assms(1)] by (simp add: divide_right_mono)
    finally show ?thesis by (simp add: pe)
  qed
  then show ?thesis using td by blast
qed

text \<open>A non-negative integer below \<open>2^53\<close> is a double.\<close>

lemma to_double_integer:
  assumes "isInteger x" and "0 \<le> x" and "x < 2 ^ 53"
  shows "to_double x = Num x"
proof (cases "x = 0")
  case True
  then show ?thesis by (simp add: to_double_def)
next
  case False
  then have pos: "0 < x" using assms(2) by simp
  obtain m where m: "to_double x =
           (if (2::rat) ^ 1024 \<le> \<bar>of_int (round_half_even (x * 2 ^ m)) / 2 ^ m\<bar> then PosInfinity
            else Num (of_int (round_half_even (x * 2 ^ m)) / 2 ^ m))"
    using to_double_scaled [OF pos assms(3)] by blast
  have xi: "x = of_int \<lfloor>x\<rfloor>"
    using assms(1) unfolding isInteger_def by (rule sym)
  have "x * 2 ^ m = of_int (\<lfloor>x\<rfloor> * 2 ^ m)"
    by (subst xi) simp
  then have r: "round_half_even (x * 2 ^ m) = \<lfloor>x\<rfloor> * 2 ^ m"
    by (simp only: round_half_even_of_int)
  have "of_int (\<lfloor>x\<rfloor> * 2 ^ m) / 2 ^ m = (of_int \<lfloor>x\<rfloor> :: rat)"
    by simp
  then have y: "of_int (round_half_even (x * 2 ^ m)) / 2 ^ m = x"
    unfolding r using xi by simp
  have "x < 2 ^ 1024"
    using assms(3) by (rule less_trans) simp
  then show ?thesis
    using pos by (simp add: m y)
qed

text \<open>
  For integers below \<open>2^53\<close> the rounding of the quotient does not reach the next
  integer in either direction, so \<open>Math.ceil(a / b)\<close> is the exact ceiling.
\<close>

lemma ceil_div_integers:
  assumes "isInteger a" and "0 \<le> a" and "a < 2 ^ 53"
    and "isInteger b" and "1 \<le> b" and "b < 2 ^ 53"
  shows "ceil_div a b = Num (of_int \<lceil>a / b\<rceil>)"
proof (cases "a = 0")
  case True
  then show ?thesis using assms(5) by (simp add: ceil_div_def to_double_def js_ceil_def)
next
  case False
  then have apos: "0 < a" using assms(2) by simp
  have bpos: "0 < b" using assms(5) by simp
  define q where "q = a / b"
  define n where "n = \<lceil>q\<rceil>"
  have qpos: "0 < q" using apos bpos by (simp add: q_def)
  have qa: "q \<le> a" using assms(5) apos by (simp add: q_def field_simps mult_le_cancel_left1)
  then have q53: "q < 2 ^ 53" using assms(3) by simp
  obtain m where m: "to_double q =
           (if (2::rat) ^ 1024 \<le> \<bar>of_int (round_half_even (q * 2 ^ m)) / 2 ^ m\<bar> then PosInfinity
            else Num (of_int (round_half_even (q * 2 ^ m)) / 2 ^ m))"
    and k: "1 / 2 ^ m \<le> q / 2 ^ 52 \<or> m = 1074"
    using to_double_scaled [OF qpos q53] by blast
  define R where "R = round_half_even (q * 2 ^ m)"
  have up: "q \<le> of_int n" by (simp add: n_def)
  have lo: "of_int n - 1 < q" unfolding n_def using ceiling_correct [of q] by simp
  have "q * 2 ^ m \<le> of_int (n * 2 ^ m)"
    using up by simp
  then have R_le: "R \<le> n * 2 ^ m"
    unfolding R_def by (rule round_half_even_le)
  have ai: "a = of_int \<lfloor>a\<rfloor>"
    using assms(1) unfolding isInteger_def by (rule sym)
  have bi: "b = of_int \<lfloor>b\<rfloor>"
    using assms(4) unfolding isInteger_def by (rule sym)
  have "(of_int n - 1) * b < a"
    using lo bpos by (simp add: q_def pos_less_divide_eq)
  then have "of_int ((n - 1) * \<lfloor>b\<rfloor>) < (of_int \<lfloor>a\<rfloor> :: rat)"
    using ai bi by simp
  then have "(n - 1) * \<lfloor>b\<rfloor> < \<lfloor>a\<rfloor>"
    by (simp only: of_int_less_iff)
  then have "(n - 1) * \<lfloor>b\<rfloor> + 1 \<le> \<lfloor>a\<rfloor>" by simp
  then have "(of_int ((n - 1) * \<lfloor>b\<rfloor> + 1) :: rat) \<le> of_int \<lfloor>a\<rfloor>"
    by (simp only: of_int_le_iff)
  then have step: "(of_int n - 1) * b + 1 \<le> a"
    using ai bi by simp
  have gap: "1 / b \<le> q - (of_int n - 1)"
    using step bpos by (simp add: q_def field_simps)
  have big: "b < 2 * 2 ^ m"
  proof -
    from k show ?thesis
    proof
      assume "1 / 2 ^ m \<le> q / 2 ^ 52"
      then have "2 ^ 52 \<le> q * 2 ^ m"
        by (simp add: field_simps)
      then have "2 ^ 52 * b \<le> a * 2 ^ m"
        using bpos by (simp add: q_def field_simps)
      moreover have "a * 2 ^ m < 2 ^ 53 * 2 ^ m"
        using assms(3) by (rule mult_strict_right_mono) simp
      ultimately have "2 ^ 52 * b < 2 ^ 53 * (2 ^ m :: rat)"
        by (rule le_less_trans)
      moreover have "2 ^ 53 * (2 ^ m :: rat) = 2 ^ 52 * (2 * 2 ^ m)"
        by simp
      ultimately have "2 ^ 52 * b < 2 ^ 52 * (2 * 2 ^ m :: rat)"
        by (simp only:)
      then show ?thesis
        by (simp only: mult_less_cancel_left_pos zero_less_power zero_less_numeral)
    next
      assume "m = 1074"
      moreover have "(2::rat) ^ 53 < 2 * 2 ^ 1074" by simp
      ultimately show ?thesis using assms(6) by simp
    qed
  qed
  have "1 / 2 < (1 / b) * 2 ^ m"
    using big bpos by (simp add: field_simps)
  also have "\<dots> \<le> (q - (of_int n - 1)) * 2 ^ m"
    using gap by (simp only: mult_le_cancel_right_pos zero_less_power zero_less_numeral)
  finally have "of_int ((n - 1) * 2 ^ m) + 1 / 2 < q * 2 ^ m"
    by (simp add: algebra_simps)
  then have R_ge: "(n - 1) * 2 ^ m + 1 \<le> R"
    unfolding R_def by (rule round_half_even_up)
  define y :: rat where "y = of_int R / 2 ^ m"
  have y_le: "y \<le> of_int n"
  proof -
    have "(of_int R :: rat) \<le> of_int (n * 2 ^ m)"
      using R_le by (simp only: of_int_le_iff)
    then show ?thesis by (simp add: y_def field_simps)
  qed
  have y_gt: "of_int n - 1 < y"
  proof -
    have "(of_int ((n - 1) * 2 ^ m + 1) :: rat) \<le> of_int R"
      using R_ge by (simp only: of_int_le_iff)
    then have "(of_int n - 1) * 2 ^ m < (of_int R :: rat)" by simp
    then show ?thesis by (simp add: y_def field_simps)
  qed
  have ceil: "\<lceil>y\<rceil> = n"
    using y_le y_gt by (simp add: ceiling_unique)
  have npos: "0 < n" using qpos by (simp add: n_def)
  have "of_int n \<le> a"
  proof -
    have "\<lceil>q\<rceil> \<le> \<lceil>a\<rceil>" using qa by (rule ceiling_mono)
    also have "\<lceil>a\<rceil> = \<lfloor>a\<rfloor>" using ai by (metis ceiling_of_int)
    finally have "(of_int n :: rat) \<le> of_int \<lfloor>a\<rfloor>" by (simp add: n_def)
    then show ?thesis using ai by simp
  qed
  then have "y < 2 ^ 1024"
    using y_le assms(3) by (simp add: less_trans [of _ "2 ^ 53"])
  moreover have "0 < y" using y_gt npos by (simp add: less_le_trans [of 0 "of_int n - 1"])
  ultimately have "to_double q = Num y"
    by (simp add: m R_def [symmetric] y_def [symmetric])
  then show ?thesis
    using bpos by (simp add: ceil_div_def q_def [symmetric] js_ceil_def ceil n_def [symmetric])
qed

lemma isInteger_numeral [simp]: "isInteger (numeral n)" "isInteger 0" "isInteger 1"
  by (simp_all add: isInteger_def)

lemma isInteger_diff: "isInteger x \<Longrightarrow> isInteger y \<Longrightarrow> isInteger (x - y)"
  unfolding isInteger_def by (metis of_int_diff floor_of_int)

lemma isInteger_mult: "isInteger x \<Longrightarrow> isInteger y \<Longrightarrow> isInteger (x * y)"
  unfolding isInteger_def by (metis of_int_mult floor_of_int)

section \<open>Pagination\<close>




text \<open>
  C7, as the code has it. For a total and a page size that are safe integers (integers of
  at most \<open>2^53 - 1\<close>), the total at least 0 and the page size at least 1, and a page of
  at least 1, \<open>buildResult\<close> reports \<open>totalPages = ceil(total / pageSize)\<close>, the least
  whole number of pages that holds the total, \<open>hasNext = (page < totalPages)\<close> and
  \<open>hasPrev = (page > 1)\<close>.
\<close>

theorem buildResult_metadata:
  assumes "isInteger totalCount" and "0 \<le> totalCount" and "totalCount \<le> 2 ^ 53 - 1"
    and "isInteger s" and "1 \<le> s" and "s \<le> 2 ^ 53 - 1"
    and "1 \<le> p"
  shows "meta_totalPages (result_pagination (buildResult rows totalCount p s))
           = Num (of_int \<lceil>totalCount / s\<rceil>)
       \<and> meta_hasNext (result_pagination (buildResult rows totalCount p s))
           = (p < of_int \<lceil>totalCount / s\<rceil>)
       \<and> meta_hasPrev (result_pagination (buildResult rows totalCount p s)) = (1 < p)
       \<and> (of_int \<lceil>totalCount / s\<rceil> - 1) * s < totalCount
       \<and> totalCount \<le> of_int \<lceil>totalCount / s\<rceil> * s"
proof -
  have pos: "0 < s"
    using assms(5) by simp
  have up: "totalCount / s \<le> of_int \<lceil>totalCount / s\<rceil>"
    by (rule le_of_int_ceiling)
  have lo: "of_int \<lceil>totalCount / s\<rceil> - 1 < totalCount / s"
    using ceiling_correct [of "totalCount / s"] by simp
  have a: "totalCount \<le> of_int \<lceil>totalCount / s\<rceil> * s"
    using up unfolding pos_divide_le_eq [OF pos] .
  have b: "(of_int \<lceil>totalCount / s\<rceil> - 1) * s < totalCount"
    using lo unfolding pos_less_divide_eq [OF pos] .
  have c: "ceil_div totalCount s = Num (of_int \<lceil>totalCount / s\<rceil>)"
    using assms(1-6) by (intro ceil_div_integers) simp_all
  show ?thesis
    using a b by (simp add: buildResult_def calculateTotalPages_def c Let_def)
qed

text \<open>Page 2 of size 20 against a total of 45: three pages, a next and a previous one.\<close>

theorem buildResult_metadata_witness:
  "meta_totalPages (result_pagination (buildResult ([]::nat list) 45 2 20)) = Num 3
   \<and> meta_hasNext (result_pagination (buildResult ([]::nat list) 45 2 20))
   \<and> meta_hasPrev (result_pagination (buildResult ([]::nat list) 45 2 20))"
proof -
  have c: "\<lceil>(45::rat) / 20\<rceil> = 3"
    by (simp add: ceiling_unique)
  show ?thesis
    using buildResult_metadata [of 45 20 2 "[]::nat list"] by (simp add: c)
qed

text \<open>
  C7 as stated fails: for the total \<open>3 * 2^53 + 8\<close> and the page size \<open>2^53 + 2\<close>, two
  doubles, the quotient is a little more than 3, so that the total needs 4 pages, but the
  division rounds it to 3: \<open>buildResult\<close> reports 3 pages, and on page 3 no next page.
\<close>

theorem buildResult_rounded_quotient_counterexample:
  "meta_totalPages
       (result_pagination (buildResult ([]::nat list) 27021597764222984 3 9007199254740994))
     = Num 3
   \<and> \<not> meta_hasNext
       (result_pagination (buildResult ([]::nat list) 27021597764222984 3 9007199254740994))
   \<and> \<lceil>27021597764222984 / 9007199254740994 :: rat\<rceil> = 4
   \<and> to_double 27021597764222984 = Num 27021597764222984
   \<and> to_double 9007199254740994 = Num 9007199254740994"
  by code_simp

section \<open>Filter compilation\<close>

text \<open>A number in a template literal: its decimal digits.\<close>

lemma toString_num:
  "\<bar>n\<bar> \<le> 2 ^ 53 - 1 \<Longrightarrow> toString (num n) = Inr (string_of_int n)"
  by (simp add: num_def safe_integer_of.rep_eq)

lemma processOperator_throws:
  "operator \<notin> set supported_operators \<Longrightarrow>
   processOperator field operator v cs = Inl (ThrowError (''Unsupported operator: '' @ operator))"
  by (simp add: supported_operators_def processOperator_def)

lemma processFilterCondition_reaches:
  "FilterProcessor_validateCondition c \<Longrightarrow> schema_passes schema c \<Longrightarrow>
   processFilterCondition schema c errs =
     (errs, processOperator (fc_field c) (fc_operator c) (fc_value c) (fc_caseSensitive c))"
  by (auto simp add: processFilterCondition_def schema_passes_def
      split: property.splits option.splits)

lemma process_reaches:
  "FilterProcessor_validateCondition c \<Longrightarrow> schema_passes schema c \<Longrightarrow>
   FilterProcessor_process schema (FilterSingle c) =
     (case processOperator (fc_field c) (fc_operator c) (fc_value c) (fc_caseSensitive c) of
        Inr w \<Rightarrow> \<lparr> fr_where = w, fr_errors = [], fr_warnings = [] \<rparr>
      | Inl t \<Rightarrow>
          \<lparr> fr_where = [], fr_errors = [''Filter processing error: '' @ throw_message t],
            fr_warnings = [] \<rparr>)"
  by (simp add: FilterProcessor_process_def processFilterCondition_reaches split: sum.splits)

lemma processFilterCondition_unsupported:
  assumes "fc_operator c \<notin> set supported_operators"
  shows "(\<exists>msg. processFilterCondition schema c errs = (errs @ [msg], Inr []))
       \<or> (\<exists>t. processFilterCondition schema c errs = (errs, Inl t))"
  using assms
  by (auto simp add: processFilterCondition_def processOperator_throws
      split: property.splits option.splits sum.splits)

text \<open>
  C4, as the code has it. For an operator outside the \<open>case\<close> labels
  \<open>processOperator\<close> throws \<open>Unsupported operator: <operator>\<close>, and
  \<open>process\<close> never lets the exception out: compiling a condition with such an
  operator returns a normal result with the empty predicate and exactly one entry in
  \<open>errors\<close>. For a condition that passes validation and the schema (the field names
  no inherited member of the schema object; it has no entry, or an entry that lists the
  operator and has no transform) the entry is
  \<open>Filter processing error: Unsupported operator: <operator>\<close>, written by the
  \<open>catch\<close> of \<open>process\<close>.
\<close>

theorem unsupported_operator_collected:
  assumes "fc_operator c \<notin> set supported_operators"
  shows "fr_where (FilterProcessor_process schema (FilterSingle c)) = []
       \<and> length (fr_errors (FilterProcessor_process schema (FilterSingle c))) = 1
       \<and> processOperator (fc_field c) (fc_operator c) v (fc_caseSensitive c) =
           Inl (ThrowError (''Unsupported operator: '' @ fc_operator c))
       \<and> (FilterProcessor_validateCondition c \<and> schema_passes schema c \<longrightarrow>
           FilterProcessor_process schema (FilterSingle c) =
             \<lparr> fr_where = [],
               fr_errors = [''Filter processing error: Unsupported operator: '' @ fc_operator c],
               fr_warnings = [] \<rparr>)"
proof -
  have general: "fr_where (FilterProcessor_process schema (FilterSingle c)) = []
       \<and> length (fr_errors (FilterProcessor_process schema (FilterSingle c))) = 1"
    using processFilterCondition_unsupported [OF assms, of schema "[]"]
    by (auto simp add: FilterProcessor_process_def)
  show ?thesis
    using assms general
    by (simp add: process_reaches processOperator_throws throw_message_def)
qed

theorem unsupported_operator_collected_witness:
  "FilterProcessor_process Map.empty (FilterSingle id_and) =
     \<lparr> fr_where = [],
       fr_errors = [''Filter processing error: Unsupported operator: and''],
       fr_warnings = [] \<rparr>"
  using unsupported_operator_collected [where c = id_and and schema = Map.empty]
  by (simp add: id_and_def supported_operators_def FilterProcessor_validateCondition_def
      schema_passes_def read_property_def object_prototype_members_def)

text \<open>
  C4 as stated fails: the operator \<open>not\<close> is outside the table, and compiling a
  condition with it returns a result object with one entry in \<open>errors\<close>.
\<close>

theorem unsupported_operator_counterexample:
  "FilterProcessor_process Map.empty (FilterSingle age_not) =
     \<lparr> fr_where = [],
       fr_errors = [''Filter processing error: Unsupported operator: not''],
       fr_warnings = [] \<rparr>"
  by (simp add: FilterProcessor_process_def processFilterCondition_def age_not_def num_def
      FilterProcessor_validateCondition_def processOperator_def throw_message_def
      read_property_def object_prototype_members_def)

text \<open>
  C5, as the code has it. A condition that passes validation and the schema compiles, by
  default (with no request for case sensitivity) and whatever its \<open>caseSensitive\<close>
  flag says, as follows: \<open>like\<close> to the case-insensitive \<open>Op.iLike\<close> with the value
  as the pattern; \<open>startsWith\<close>, \<open>endsWith\<close> and \<open>contains\<close> to \<open>Op.iLike\<close>
  with the pattern \<open>`${value}%`\<close>, \<open>`%${value}`\<close> and \<open>`%${value}%`\<close> (for a
  string value, the string itself between the percent signs), or, where the conversion of
  the value to a string throws, to the empty predicate with the error recorded; and
  \<open>notLike\<close> to the case-sensitive \<open>Op.notLike\<close>.
\<close>

theorem like_family_compiles:
  assumes "FilterProcessor_validateCondition c" and "schema_passes schema c"
  shows "(fc_operator c = ''like'' \<longrightarrow>
           FilterProcessor_process schema (FilterSingle c) =
             \<lparr> fr_where = [(Field (fc_field c), Obj [(Sym Op_iLike, Val (fc_value c))])],
               fr_errors = [], fr_warnings = [] \<rparr>)
       \<and> (fc_operator c = ''startsWith'' \<longrightarrow>
           FilterProcessor_process schema (FilterSingle c) =
             (case toString (fc_value c) of
                Inr s \<Rightarrow>
                  \<lparr> fr_where = [(Field (fc_field c), Obj [(Sym Op_iLike, Val (JStr (s @ ''%'')))])],
                    fr_errors = [], fr_warnings = [] \<rparr>
              | Inl e \<Rightarrow>
                  \<lparr> fr_where = [],
                    fr_errors = [''Filter processing error: '' @ throw_message e],
                    fr_warnings = [] \<rparr>))
       \<and> (fc_operator c = ''endsWith'' \<longrightarrow>
           FilterProcessor_process schema (FilterSingle c) =
             (case toString (fc_value c) of
                Inr s \<Rightarrow>
                  \<lparr> fr_where = [(Field (fc_field c), Obj [(Sym Op_iLike, Val (JStr (''%'' @ s)))])],
                    fr_errors = [], fr_warnings = [] \<rparr>
              | Inl e \<Rightarrow>
                  \<lparr> fr_where = [],
                    fr_errors = [''Filter processing error: '' @ throw_message e],
                    fr_warnings = [] \<rparr>))
       \<and> (fc_operator c = ''contains'' \<longrightarrow>
           FilterProcessor_process schema (FilterSingle c) =
             (case toString (fc_value c) of
                Inr s \<Rightarrow>
                  \<lparr> fr_where =
                      [(Field (fc_field c), Obj [(Sym Op_iLike, Val (JStr (''%'' @ s @ ''%'')))])],
                    fr_errors = [], fr_warnings = [] \<rparr>
              | Inl e \<Rightarrow>
                  \<lparr> fr_where = [],
                    fr_errors = [''Filter processing error: '' @ throw_message e],
                    fr_warnings = [] \<rparr>))
       \<and> (fc_operator c = ''notLike'' \<longrightarrow>
           FilterProcessor_process schema (FilterSingle c) =
             \<lparr> fr_where = [(Field (fc_field c), Obj [(Sym Op_notLike, Val (fc_value c))])],
               fr_errors = [], fr_warnings = [] \<rparr>)
       \<and> toString (JStr s) = Inr s"
  by (auto simp add: process_reaches [OF assms] processOperator_def field_op_def
      split: sum.splits)

text \<open>
  A \<open>contains\<close> and a \<open>like\<close> condition on \<open>name\<close>, neither asking for case
  sensitivity: both compile to \<open>Op.iLike\<close>.
\<close>

theorem like_family_compiles_witness:
  "FilterProcessor_process Map.empty (FilterSingle name_contains) =
     \<lparr> fr_where = [(Field ''name'', Obj [(Sym Op_iLike, Val (JStr ''%ann%''))])],
       fr_errors = [], fr_warnings = [] \<rparr>
   \<and> FilterProcessor_process Map.empty (FilterSingle name_like) =
     \<lparr> fr_where = [(Field ''name'', Obj [(Sym Op_iLike, Val (JStr ''a%''))])],
       fr_errors = [], fr_warnings = [] \<rparr>
   \<and> fc_caseSensitive name_contains = None \<and> fc_caseSensitive name_like = None"
  using like_family_compiles [where c = name_contains and schema = Map.empty]
    like_family_compiles [where c = name_like and schema = Map.empty]
  by (simp add: name_contains_def name_like_def FilterProcessor_validateCondition_def
      schema_passes_def read_property_def object_prototype_members_def)

text \<open>
  C5 as stated fails: a \<open>notLike\<close> condition that asks for nothing compiles to
  \<open>Op.notLike\<close>, the case-sensitive negated match.
\<close>

theorem notLike_default_counterexample:
  "FilterProcessor_process Map.empty (FilterSingle name_notLike) =
     \<lparr> fr_where = [(Field ''name'', Obj [(Sym Op_notLike, Val (JStr ''a%''))])],
       fr_errors = [], fr_warnings = [] \<rparr>"
  by (simp add: FilterProcessor_process_def processFilterCondition_def name_notLike_def
      FilterProcessor_validateCondition_def processOperator_def field_op_def
      read_property_def object_prototype_members_def)

text \<open>
  C8, as the code has it. For a \<open>between\<close> or \<open>notBetween\<close> condition whose value
  is not an array of two elements \<open>processOperator\<close> gives the range predicate with
  both bounds equal to the value. Compiled through \<open>process\<close>, a condition that passes
  validation (its field is not empty and its value is neither \<open>undefined\<close> nor
  \<open>null\<close>) and the schema gives that predicate and no error: the condition is not
  dropped and nothing is recorded.
\<close>

theorem between_fallback:
  assumes "fc_operator c = ''between'' \<or> fc_operator c = ''notBetween''"
    and "\<not> isArrayOfTwo (fc_value c)"
  shows "processOperator (fc_field c) (fc_operator c) (fc_value c) (fc_caseSensitive c) =
           Inr [(Field (fc_field c),
                 Obj [(Sym (if fc_operator c = ''between'' then Op_between else Op_notBetween),
                       Val (JArr [fc_value c, fc_value c]))])]
       \<and> (FilterProcessor_validateCondition c \<and> schema_passes schema c \<longrightarrow>
           FilterProcessor_process schema (FilterSingle c) =
             \<lparr> fr_where =
                 [(Field (fc_field c),
                   Obj [(Sym (if fc_operator c = ''between'' then Op_between else Op_notBetween),
                         Val (JArr [fc_value c, fc_value c]))])],
               fr_errors = [], fr_warnings = [] \<rparr>)"
proof -
  have op: "processOperator (fc_field c) (fc_operator c) (fc_value c) (fc_caseSensitive c) =
           Inr [(Field (fc_field c),
                 Obj [(Sym (if fc_operator c = ''between'' then Op_between else Op_notBetween),
                       Val (JArr [fc_value c, fc_value c]))])]"
    using assms by (auto simp add: processOperator_def field_op_def)
  show ?thesis
    by (simp add: op process_reaches)
qed

theorem between_fallback_witness:
  "FilterProcessor_process Map.empty (FilterSingle age_between_18) =
     \<lparr> fr_where = [(Field ''age'', Obj [(Sym Op_between, Val (JArr [num 18, num 18]))])],
       fr_errors = [], fr_warnings = [] \<rparr>"
  using between_fallback [of age_between_18 Map.empty]
  by (simp add: age_between_18_def num_def FilterProcessor_validateCondition_def
      schema_passes_def read_property_def object_prototype_members_def)

text \<open>
  C8 as stated fails: \<open>null\<close> is not an array of two elements, and a \<open>between\<close>
  condition with the value \<open>null\<close> is dropped, with an entry in \<open>errors\<close>.
\<close>

theorem between_null_counterexample:
  "FilterProcessor_process Map.empty (FilterSingle age_between_null) =
     \<lparr> fr_where = [], fr_errors = [''Invalid filter condition for field: age''],
       fr_warnings = [] \<rparr>
   \<and> fc_operator age_between_null = ''between''
   \<and> \<not> isArrayOfTwo (fc_value age_between_null)"
  by (simp add: FilterProcessor_process_def processFilterCondition_def age_between_null_def
      FilterProcessor_validateCondition_def)

text \<open>
  C10, as the code has it. For an \<open>in\<close> or \<open>notIn\<close> condition whose value is not an
  array \<open>processOperator\<close> gives, without failing, the membership predicate over the
  one-element array of the value, the same as for that array as the value. Compiled through
  \<open>process\<close>, a condition that passes validation (its field is not empty and its value is
  neither \<open>undefined\<close> nor \<open>null\<close>) and the schema gives that predicate and no
  error, and so does the condition with the one-element array as its value.
\<close>

theorem in_wraps_scalar:
  assumes "fc_operator c = ''in'' \<or> fc_operator c = ''notIn''"
    and "\<not> isArray (fc_value c)"
  shows "processOperator (fc_field c) (fc_operator c) (fc_value c) (fc_caseSensitive c) =
           Inr [(Field (fc_field c),
                 Obj [(Sym (if fc_operator c = ''in'' then Op_in else Op_notIn),
                       Val (JArr [fc_value c]))])]
       \<and> processOperator (fc_field c) (fc_operator c) (fc_value c) (fc_caseSensitive c) =
           processOperator (fc_field c) (fc_operator c) (JArr [fc_value c]) (fc_caseSensitive c)
       \<and> (FilterProcessor_validateCondition c \<and> schema_passes schema c \<longrightarrow>
           FilterProcessor_process schema (FilterSingle c) =
             \<lparr> fr_where =
                 [(Field (fc_field c),
                   Obj [(Sym (if fc_operator c = ''in'' then Op_in else Op_notIn),
                         Val (JArr [fc_value c]))])],
               fr_errors = [], fr_warnings = [] \<rparr>
           \<and> FilterProcessor_process schema
               (FilterSingle (c\<lparr>fc_value := JArr [fc_value c]\<rparr>)) =
             \<lparr> fr_where =
                 [(Field (fc_field c),
                   Obj [(Sym (if fc_operator c = ''in'' then Op_in else Op_notIn),
                         Val (JArr [fc_value c]))])],
               fr_errors = [], fr_warnings = [] \<rparr>)"
proof -
  have op: "processOperator (fc_field c) (fc_operator c) (fc_value c) (fc_caseSensitive c) =
           Inr [(Field (fc_field c),
                 Obj [(Sym (if fc_operator c = ''in'' then Op_in else Op_notIn),
                       Val (JArr [fc_value c]))])]"
    using assms by (auto simp add: processOperator_def field_op_def)
  have wrapped:
    "processOperator (fc_field c) (fc_operator c) (JArr [fc_value c]) (fc_caseSensitive c) =
           Inr [(Field (fc_field c),
                 Obj [(Sym (if fc_operator c = ''in'' then Op_in else Op_notIn),
                       Val (JArr [fc_value c]))])]"
    using assms(1) by (auto simp add: processOperator_def field_op_def)
  have valid: "FilterProcessor_validateCondition c \<Longrightarrow>
      FilterProcessor_validateCondition (c\<lparr>fc_value := JArr [fc_value c]\<rparr>)"
    by (simp add: FilterProcessor_validateCondition_def split: if_splits)
  have passes: "schema_passes schema c \<Longrightarrow>
      schema_passes schema (c\<lparr>fc_value := JArr [fc_value c]\<rparr>)"
    by (simp add: schema_passes_def split: property.splits)
  have scalar: "FilterProcessor_validateCondition c \<Longrightarrow> schema_passes schema c \<Longrightarrow>
      FilterProcessor_process schema (FilterSingle c) =
        \<lparr> fr_where =
            [(Field (fc_field c),
              Obj [(Sym (if fc_operator c = ''in'' then Op_in else Op_notIn),
                    Val (JArr [fc_value c]))])],
          fr_errors = [], fr_warnings = [] \<rparr>"
    by (simp add: process_reaches op)
  have array: "FilterProcessor_validateCondition c \<Longrightarrow> schema_passes schema c \<Longrightarrow>
      FilterProcessor_process schema (FilterSingle (c\<lparr>fc_value := JArr [fc_value c]\<rparr>)) =
        \<lparr> fr_where =
            [(Field (fc_field c),
              Obj [(Sym (if fc_operator c = ''in'' then Op_in else Op_notIn),
                    Val (JArr [fc_value c]))])],
          fr_errors = [], fr_warnings = [] \<rparr>"
    using process_reaches [OF valid passes] wrapped by simp
  show ?thesis
    using scalar array by (simp add: op wrapped)
qed

theorem in_wraps_scalar_witness:
  "FilterProcessor_process Map.empty (FilterSingle status_in_active) =
     \<lparr> fr_where = [(Field ''status'', Obj [(Sym Op_in, Val (JArr [JStr ''active'']))])],
       fr_errors = [], fr_warnings = [] \<rparr>
   \<and> FilterProcessor_process Map.empty
       (FilterSingle (status_in_active\<lparr>fc_value := JArr [JStr ''active'']\<rparr>)) =
     \<lparr> fr_where = [(Field ''status'', Obj [(Sym Op_in, Val (JArr [JStr ''active'']))])],
       fr_errors = [], fr_warnings = [] \<rparr>"
  using in_wraps_scalar [of status_in_active Map.empty]
  by (simp add: status_in_active_def FilterProcessor_validateCondition_def schema_passes_def
      read_property_def object_prototype_members_def)

text \<open>
  C10 as stated fails: with the value \<open>null\<close>, which is not an array, an \<open>in\<close>
  condition is refused, with an entry in \<open>errors\<close> and no predicate, while the same
  condition with the array \<open>[null]\<close> compiles to the membership predicate.
\<close>

theorem in_null_counterexample:
  "FilterProcessor_process Map.empty (FilterSingle status_in_null) =
     \<lparr> fr_where = [], fr_errors = [''Invalid filter condition for field: status''],
       fr_warnings = [] \<rparr>
   \<and> FilterProcessor_process Map.empty
       (FilterSingle (status_in_null\<lparr>fc_value := JArr [JNull]\<rparr>)) =
     \<lparr> fr_where = [(Field ''status'', Obj [(Sym Op_in, Val (JArr [JNull]))])],
       fr_errors = [], fr_warnings = [] \<rparr>
   \<and> \<not> isArray (fc_value status_in_null)"
  by (simp add: FilterProcessor_process_def processFilterCondition_def status_in_null_def
      FilterProcessor_validateCondition_def processOperator_def field_op_def
      read_property_def object_prototype_members_def)

section \<open>Performance monitoring\<close>

lemma string_of_int_0: "string_of_int 0 = ''0''"
  by (simp add: string_of_int_def string_of_nat.simps)

lemma session_start_eval:
  "fst session_start = ''findAll_User_req_1_0''"
  "pm_enabled (fst (snd session_start))"
  "pm_threshold (fst (snd session_start)) = 1000"
  "pm_metrics (fst (snd session_start)) ''findAll_User_req_1_0'' =
     Some \<lparr> queryExecutionTime = 0, totalExecutionTime = 0, memoryUsage = 0,
            queryCount = 0, cacheHits = 0, cacheMisses = 0 \<rparr>"
  "w_reads (snd (snd session_start)) = 1"
  "w_clock (snd (snd session_start)) = clock_0_then_5000"
  "w_console (snd (snd session_start)) = []"
  by (simp_all add: session_start_def startMonitoring_def new_PerformanceMonitor_def
      generateMonitorId_def Date_now_def world_0_then_5000_def find_users_context_def
      clock_0_then_5000_def string_of_int_0)

text \<open>
  On a clock that does not run backwards the total that \<open>endMonitoring\<close> stores is
  never positive: it is the first of two successive readings minus the second.
\<close>

lemma endMonitoring_total_not_positive:
  assumes "\<forall>i j. i \<le> j \<longrightarrow> w_clock w i \<le> w_clock w j"
    and "endMonitoring pm monitorId w = (Some metrics, pm1, w1)"
  shows "totalExecutionTime metrics \<le> 0"
  using assms
  by (auto simp add: endMonitoring_def Date_now_def Let_def split: if_splits option.splits)

text \<open>The record leaves the live map, and a second end with the handle returns null.\<close>

lemma endMonitoring_removes:
  assumes "endMonitoring pm monitorId w = (Some metrics, pm1, w1)"
  shows "pm_metrics pm1 monitorId = None \<and> fst (endMonitoring pm1 monitorId w2) = None"
  using assms
  by (auto simp add: endMonitoring_def Date_now_def Let_def split: if_splits option.splits)

text \<open>
  C2 at a concrete session. Monitoring starts when the clock reads 0 and ends when it
  reads 5000, with the threshold 1000: the elapsed time is 5000 ms, yet
  \<open>endMonitoring\<close> stores the total 0 and warns about nothing.
\<close>

theorem endMonitoring_loses_elapsed_time:
  "w_clock world_0_then_5000 0 = 0
   \<and> w_clock (snd (snd session_start)) (w_reads (snd (snd session_start))) = 5000
   \<and> map_option totalExecutionTime (fst session_end) = Some 0
   \<and> pm_threshold (fst (snd session_start)) = 1000
   \<and> w_console (snd (snd session_end)) = []"
  by (simp add: session_end_def endMonitoring_def session_start_eval Date_now_def
      clock_0_then_5000_def world_0_then_5000_def)

section \<open>Builder calls\<close>

text \<open>
  C3 as stated fails: after \<open>withPagination\<close> with a page and a page size, a second
  \<open>withPagination\<close> with an offset and a limit returns normally, and the builder then
  holds the offset-based options alone.
\<close>

theorem second_withPagination_counterexample:
  "withPagination fresh_builder page_two_of_twenty = Inr paged_builder
   \<and> withPagination paged_builder offset_forty =
       Inr (paged_builder\<lparr>aqb_currentOptions :=
              (aqb_currentOptions paged_builder)\<lparr>ao_pagination := Some offset_forty\<rparr>\<rparr>)"
  by (simp add: withPagination_def validatePagination_def joi_integer_def joi_unknown_def
      page_two_of_twenty_def offset_forty_def paged_builder_def fresh_builder_def
      new_AdvancedQueryBuilder_def)

text \<open>
  C3, as the code has it. \<open>withPagination\<close> checks the options it is given on their
  own: offset-based options that are valid succeed on any builder, whatever pagination it
  holds, and replace it. The rule against mixing the two modes is in
  \<open>PaginationBuilder.validate\<close> and concerns one options object: \<open>process\<close>
  refuses every object that has a page-based and an offset-based field with a
  \<open>PaginationError\<close> whose messages include the rule.
\<close>

theorem withPagination_replaces:
  assumes "opt_page options = None" and "opt_pageSize options = None"
    and "opt_cursor options = None" and "opt_direction options = None"
    and "opt_offset options = Some off" and "isInteger off" and "0 \<le> off"
    and "off \<le> 2 ^ 53 - 1"
    and "opt_limit options = Some l" and "isInteger l" and "1 \<le> l" and "l \<le> 1000"
  shows "withPagination b options =
           Inr (b\<lparr>aqb_currentOptions := (aqb_currentOptions b)\<lparr>ao_pagination := Some options\<rparr>\<rparr>)
       \<and> (\<forall>config both.
             (opt_page both \<noteq> None \<or> opt_pageSize both \<noteq> None)
             \<and> (opt_offset both \<noteq> None \<or> opt_limit both \<noteq> None) \<longrightarrow>
             (\<exists>errs. PaginationBuilder_process config both =
                       Inl (PaginationError ''INVALID_PAGINATION_OPTIONS'' errs
                              (opt_page both) (opt_pageSize both))
                     \<and> BothPageAndOffsetBased \<in> set errs))"
proof -
  have a: "validatePagination options r = Inr options" for r
    using assms
    by (simp add: validatePagination_def joi_integer_def joi_unknown_def)
  have b: "\<And>config both.
      (opt_page both \<noteq> None \<or> opt_pageSize both \<noteq> None)
      \<and> (opt_offset both \<noteq> None \<or> opt_limit both \<noteq> None) \<Longrightarrow>
      PaginationBuilder_process config both =
        Inl (PaginationError ''INVALID_PAGINATION_OPTIONS''
               (pv_errors (PaginationBuilder_validate config both))
               (opt_page both) (opt_pageSize both))
      \<and> BothPageAndOffsetBased \<in> set (pv_errors (PaginationBuilder_validate config both))"
    by (simp add: PaginationBuilder_process_def PaginationBuilder_validate_def Let_def)
  show ?thesis
    using b by (simp add: withPagination_def a)
qed

theorem withPagination_replaces_witness:
  "withPagination paged_builder offset_forty =
     Inr (paged_builder\<lparr>aqb_currentOptions :=
            (aqb_currentOptions paged_builder)\<lparr>ao_pagination := Some offset_forty\<rparr>\<rparr>)
   \<and> (\<exists>errs. PaginationBuilder_process default_pagination_config page_and_offset =
               Inl (PaginationError ''INVALID_PAGINATION_OPTIONS'' errs (Some 2) (Some 20))
             \<and> BothPageAndOffsetBased \<in> set errs)"
proof -
  have "(opt_page page_and_offset \<noteq> None \<or> opt_pageSize page_and_offset \<noteq> None)
      \<and> (opt_offset page_and_offset \<noteq> None \<or> opt_limit page_and_offset \<noteq> None)"
    by (simp add: page_and_offset_def)
  moreover have "opt_page page_and_offset = Some 2" "opt_pageSize page_and_offset = Some 20"
    by (simp_all add: page_and_offset_def)
  ultimately show ?thesis
    using withPagination_replaces [of offset_forty 40 20 paged_builder]
    by (simp add: offset_forty_def) metis
qed

lemma validateSorting_cases:
  "validateSorting s r = Inr d \<Longrightarrow> d = s"
  by (simp add: validateSorting_def Let_def split: if_splits)

lemma first_error_None:
  "first_error (map (\<lambda>sort. validateSorting sort r) sorts) = None \<Longrightarrow>
   validation_data (map (\<lambda>sort. validateSorting sort r) sorts) = sorts"
proof (induction sorts)
  case Nil
  then show ?case by simp
next
  case (Cons s sorts)
  then show ?case
    by (cases "validateSorting s r") (auto dest: validateSorting_cases)
qed

lemma withSortings_stores:
  "withSortings b sorts = Inr b1 \<Longrightarrow>
   b1 = b\<lparr>aqb_currentOptions := (aqb_currentOptions b)\<lparr>ao_sorting := Some sorts\<rparr>\<rparr>"
  by (auto simp add: withSortings_def Let_def first_error_None split: option.splits)

text \<open>A sequence of steps, each of which can throw, succeeds where every step does.\<close>

lemma sum_bind_Inr:
  "((case x of Inl e \<Rightarrow> Inl e | Inr y \<Rightarrow> F y) = Inr q) = (\<exists>y. x = Inr y \<and> F y = Inr q)"
  by (cases x) auto

lemma handle_sorting_first:
  "(handle_sorting (b\<lparr>aqb_currentOptions := (aqb_currentOptions b)\<lparr>ao_sorting := Some (s # rest)\<rparr>\<rparr>) options
      = Inr o3)
   = (handle_sorting (b\<lparr>aqb_currentOptions := (aqb_currentOptions b)\<lparr>ao_sorting := Some [s]\<rparr>\<rparr>) options
      = Inr o3)"
  by (simp add: handle_sorting_def split: sum.splits)

lemma handle_pagination_sorting:
  "handle_pagination (b\<lparr>aqb_currentOptions := (aqb_currentOptions b)\<lparr>ao_sorting := x\<rparr>\<rparr>) options
   = handle_pagination b options"
  by (simp add: handle_pagination_def cong: option.case_cong)

lemma handle_filters_sorting:
  "handle_filters (b\<lparr>aqb_currentOptions := (aqb_currentOptions b)\<lparr>ao_sorting := x\<rparr>\<rparr>) options
   = handle_filters b options"
  by (simp add: handle_filters_def Let_def split: option.splits)

lemma handle_joins_sorting:
  "snd (handle_joins (b\<lparr>aqb_currentOptions := (aqb_currentOptions b)\<lparr>ao_sorting := x\<rparr>\<rparr>) options)
   = snd (handle_joins b options)"
  "fst (handle_joins (b\<lparr>aqb_currentOptions := (aqb_currentOptions b)\<lparr>ao_sorting := x\<rparr>\<rparr>) options)
   = (fst (handle_joins b options))\<lparr>aqb_currentOptions := (aqb_currentOptions b)\<lparr>ao_sorting := x\<rparr>\<rparr>"
  by (simp_all add: handle_joins_def split: option.splits prod.splits)

lemma handle_joins_options:
  "aqb_currentOptions (fst (handle_joins b options)) = aqb_currentOptions b"
  by (simp add: handle_joins_def split: option.splits prod.splits)

lemma handle_other_options_sorting:
  "handle_other_options (b\<lparr>aqb_currentOptions := (aqb_currentOptions c)\<lparr>ao_sorting := x\<rparr>\<rparr>) options
   = handle_other_options (b\<lparr>aqb_currentOptions := aqb_currentOptions c\<rparr>) options"
  by (simp add: handle_other_options_def Let_def cong: option.case_cong)

lemma handle_other_options_cong:
  "aqb_currentOptions b = aqb_currentOptions c \<Longrightarrow>
   handle_other_options b options = handle_other_options c options"
  by (simp add: handle_other_options_def)

lemma snd_buildQueryOptions:
  "snd (buildQueryOptions b) =
     (case handle_pagination b empty_query_options of
        Inl e \<Rightarrow> Inl e
      | Inr o1 \<Rightarrow>
          (case handle_filters b o1 of
             Inl e \<Rightarrow> Inl e
           | Inr o2 \<Rightarrow>
               (case handle_sorting b o2 of
                  Inl e \<Rightarrow> Inl e
                | Inr o3 \<Rightarrow>
                    (case snd (handle_joins b o3) of
                       Inl e \<Rightarrow> Inl e
                     | Inr o4 \<Rightarrow>
                         Inr (handle_other_options (fst (handle_joins b o3)) o4)))))"
  by (simp add: buildQueryOptions_def split: sum.splits prod.splits)

lemma buildQueryOptions_first:
  "(snd (buildQueryOptions (b\<lparr>aqb_currentOptions := (aqb_currentOptions b)\<lparr>ao_sorting := Some (s # rest)\<rparr>\<rparr>))
      = Inr qo)
   = (snd (buildQueryOptions (b\<lparr>aqb_currentOptions := (aqb_currentOptions b)\<lparr>ao_sorting := Some [s]\<rparr>\<rparr>))
      = Inr qo)"
proof -
  have other: "\<And>x o3 o4.
      handle_other_options
        (fst (handle_joins (b\<lparr>aqb_currentOptions := (aqb_currentOptions b)\<lparr>ao_sorting := x\<rparr>\<rparr>) o3)) o4
      = handle_other_options (fst (handle_joins b o3)) o4"
    by (simp add: handle_joins_sorting(2) handle_other_options_sorting)
      (rule handle_other_options_cong, simp add: handle_joins_options)
  show ?thesis
    unfolding snd_buildQueryOptions handle_pagination_sorting handle_filters_sorting
      handle_joins_sorting(1) other sum_bind_Inr
      handle_sorting_first [where b = b and s = s and rest = rest]
    by (rule refl)
qed

lemma validateSorting_valid:
  "validateSorting s r = Inr d \<Longrightarrow>
   truthy (sc_column s) \<and> (sc_order s = Some ''ASC'' \<or> sc_order s = Some ''DESC'')"
  by (auto simp add: validateSorting_def Let_def joi_required_string_def joi_valid_def truthy_def
      split: if_splits option.splits)

lemma process_single_shape:
  "sr_errors (SortProcessor_process processor (SortArray [s])) = [] \<Longrightarrow>
   truthy (sc_column s) \<Longrightarrow> sc_order s = Some ''ASC'' \<or> sc_order s = Some ''DESC'' \<Longrightarrow>
   \<exists>e. SortProcessor_process processor (SortArray [s]) =
         \<lparr> sr_order = OrderList [e], sr_errors = [], sr_warnings = [] \<rparr>"
  by (auto simp add: SortProcessor_process_def processSortArray_def processSortCondition_def
      Let_def List.map_filter_def split: if_splits prod.splits sum.splits option.splits)

lemma handle_joins_order:
  "handle_joins b o3 = (b2, Inr o4) \<Longrightarrow> qo_order o4 = qo_order o3"
  by (auto simp add: handle_joins_def split: option.splits prod.splits)

lemma handle_other_options_order:
  "qo_order (handle_other_options b o4) = qo_order o4"
  by (simp add: handle_other_options_def Let_def split: option.splits)

lemma buildQueryOptions_order:
  "buildQueryOptions b = (b2, Inr qo) \<Longrightarrow>
   \<exists>o2 o3. handle_sorting b o2 = Inr o3 \<and> qo_order qo = qo_order o3"
  by (auto simp add: buildQueryOptions_def handle_other_options_order
      split: sum.splits prod.splits) (metis handle_joins_order)

lemma handle_sorting_order:
  assumes "handle_sorting b o2 = Inr o3"
    and "ao_sorting (aqb_currentOptions b) = Some (s # rest)"
    and "truthy (sc_column s)" and "truthy (sc_order s)"
  shows "sr_errors (SortProcessor_process (aqb_sortProcessor b) (SortArray [s])) = []
       \<and> qo_order o3 = Some (sr_order (SortProcessor_process (aqb_sortProcessor b) (SortArray [s])))"
proof -
  have same: "\<lparr> sc_column = sc_column s, sc_order = sc_order s, sc_nulls = sc_nulls s,
        sc_caseSensitive = sc_caseSensitive s \<rparr> = s"
    by simp
  show ?thesis
    using assms
    by (auto simp add: handle_sorting_def SortBuilder_processFromOptions_def Let_def same
        split: if_splits)
qed

text \<open>
  C9. After \<open>withSortings\<close> has stored two or more valid sort conditions, the query
  options are built from the first one alone: \<open>buildQueryOptions\<close> succeeds exactly
  where it succeeds with only the first condition stored, and then gives the same options;
  where it succeeds the ordering is the single instruction compiled from the first
  condition, with no error and no warning.
\<close>

theorem withSortings_only_first:
  assumes "withSortings b sorts = Inr b1" and "2 \<le> length sorts"
  shows "ao_sorting (aqb_currentOptions b1) = Some sorts
       \<and> (\<forall>qo. snd (buildQueryOptions b1) = Inr qo \<longleftrightarrow>
             snd (buildQueryOptions
                    (b1\<lparr>aqb_currentOptions := (aqb_currentOptions b1)\<lparr>ao_sorting := Some [hd sorts]\<rparr>\<rparr>))
               = Inr qo)
       \<and> (\<forall>b2 qo. buildQueryOptions b1 = (b2, Inr qo) \<longrightarrow>
             (\<exists>e. qo_order qo = Some (OrderList [e])
                  \<and> SortProcessor_process (aqb_sortProcessor b1) (SortArray [hd sorts]) =
                      \<lparr> sr_order = OrderList [e], sr_errors = [], sr_warnings = [] \<rparr>))"
proof -
  have b1: "b1 = b\<lparr>aqb_currentOptions := (aqb_currentOptions b)\<lparr>ao_sorting := Some sorts\<rparr>\<rparr>"
    using assms(1) by (rule withSortings_stores)
  obtain s rest where sorts: "sorts = s # rest"
    using assms(2) by (cases sorts) auto
  have valid: "\<exists>d. validateSorting s (Some (aqb_requestId b)) = Inr d"
    using assms(1) unfolding sorts
    by (cases "validateSorting s (Some (aqb_requestId b))")
      (auto simp add: withSortings_def Let_def split: option.splits)
  then have shape: "truthy (sc_column s)" "sc_order s = Some ''ASC'' \<or> sc_order s = Some ''DESC''"
    using validateSorting_valid by blast+
  have stored: "ao_sorting (aqb_currentOptions b1) = Some sorts"
    by (simp add: b1)
  have same: "snd (buildQueryOptions b1) = Inr qo \<longleftrightarrow>
      snd (buildQueryOptions
             (b1\<lparr>aqb_currentOptions := (aqb_currentOptions b1)\<lparr>ao_sorting := Some [hd sorts]\<rparr>\<rparr>))
        = Inr qo" for qo
    using buildQueryOptions_first [where b = b and s = s and rest = rest and qo = qo]
    by (simp add: b1 sorts)
  have order: "\<exists>e. qo_order qo = Some (OrderList [e])
                  \<and> SortProcessor_process (aqb_sortProcessor b1) (SortArray [hd sorts]) =
                      \<lparr> sr_order = OrderList [e], sr_errors = [], sr_warnings = [] \<rparr>"
    if built: "buildQueryOptions b1 = (b2, Inr qo)" for b2 qo
  proof -
    obtain o2 o3 where h: "handle_sorting b1 o2 = Inr o3" and q: "qo_order qo = qo_order o3"
      using buildQueryOptions_order [OF built] by blast
    have t: "truthy (sc_order s)"
      using shape(2) by (auto simp add: truthy_def)
    have r: "sr_errors (SortProcessor_process (aqb_sortProcessor b1) (SortArray [s])) = []"
      "qo_order o3 = Some (sr_order (SortProcessor_process (aqb_sortProcessor b1) (SortArray [s])))"
      using handle_sorting_order [OF h _ shape(1) t, of rest] stored by (simp_all add: sorts)
    obtain e where e: "SortProcessor_process (aqb_sortProcessor b1) (SortArray [s]) =
         \<lparr> sr_order = OrderList [e], sr_errors = [], sr_warnings = [] \<rparr>"
      using process_single_shape [OF r(1) shape] by blast
    show ?thesis
      using q r(2) e by (simp add: sorts)
  qed
  show ?thesis
    using stored same order by blast
qed

lemma withSortings_fresh:
  "withSortings fresh_builder [createdAt_desc, name_asc] = Inr sorted_builder"
  by (simp add: withSortings_def validateSorting_def joi_required_string_def joi_valid_def
      createdAt_desc_def name_asc_def sorted_builder_def fresh_builder_def
      new_AdvancedQueryBuilder_def)

lemma buildQueryOptions_sorted:
  "buildQueryOptions sorted_builder =
     (sorted_builder,
      Inr (empty_query_options\<lparr>qo_order := Some (OrderList [(SortColumn ''createdAt'', ''DESC'')])\<rparr>))"
  by (simp add: buildQueryOptions_def handle_pagination_def handle_filters_def
      handle_sorting_def handle_joins_def handle_other_options_def
      SortBuilder_processFromOptions_def SortProcessor_process_def processSortArray_def
      processSortCondition_def SortProcessor_validateCondition_def truthy_def str_of_def
      str_or_def List.map_filter_def new_SortProcessor_def
      read_property_def object_prototype_members_def
      createdAt_desc_def name_asc_def sorted_builder_def fresh_builder_def
      new_AdvancedQueryBuilder_def empty_options_def)

theorem withSortings_only_first_witness:
  "withSortings fresh_builder [createdAt_desc, name_asc] = Inr sorted_builder
   \<and> ao_sorting (aqb_currentOptions sorted_builder) = Some [createdAt_desc, name_asc]
   \<and> buildQueryOptions sorted_builder =
       (sorted_builder,
        Inr (empty_query_options\<lparr>qo_order := Some (OrderList [(SortColumn ''createdAt'', ''DESC'')])\<rparr>))
   \<and> snd (buildQueryOptions
              (sorted_builder\<lparr>aqb_currentOptions :=
                 (aqb_currentOptions sorted_builder)\<lparr>ao_sorting := Some [createdAt_desc]\<rparr>\<rparr>))
       = Inr (empty_query_options\<lparr>qo_order := Some (OrderList [(SortColumn ''createdAt'', ''DESC'')])\<rparr>)"
  using withSortings_only_first [OF withSortings_fresh] withSortings_fresh
    buildQueryOptions_sorted
  by simp blast

section \<open>Execution and the cache\<close>

lemma buildQueryOptions_frame:
  "buildQueryOptions b = (b2, r) \<Longrightarrow> b2 = b\<lparr>aqb_joins := aqb_joins b2\<rparr>"
  by (auto simp add: buildQueryOptions_def handle_joins_def
      split: sum.splits prod.splits option.splits)

lemma execute_result_frame:
  "execute_result b q rows t w = (r, w1) \<Longrightarrow>
   w_clock w1 = w_clock w \<and> w_reads w1 = w_reads w \<and> w_findAllCalls w1 = w_findAllCalls w"
  by (auto simp add: execute_result_def getTotalCount_def Let_def
      split: sum.splits prod.splits option.splits)

lemma execute_result_flag:
  "execute_result b q rows t w = (Inr fr, w1) \<Longrightarrow> cacheHit_flag fr \<noteq> Some True"
  by (auto simp add: execute_result_def getTotalCount_def Let_def cacheHit_flag_def
      split: sum.splits prod.splits option.splits)

lemma endMonitoring_clock:
  "endMonitoring pm m w = (r, pm1, w1) \<Longrightarrow>
   w_clock w1 = w_clock w \<and> w_findAllCalls w1 = w_findAllCalls w \<and> w_countCalls w1 = w_countCalls w
   \<and> w_reads w \<le> w_reads w1 \<and> w_reads w1 \<le> w_reads w + 2"
  by (auto simp add: endMonitoring_def Date_now_def console_warn_def Let_def
      split: if_splits option.splits)

lemma startMonitoring_clock:
  "startMonitoring pm c w = (m, pm1, w1) \<Longrightarrow>
   w_clock w1 = w_clock w \<and> w_findAllCalls w1 = w_findAllCalls w \<and> w_countCalls w1 = w_countCalls w
   \<and> w_reads w \<le> w_reads w1 \<and> w_reads w1 \<le> w_reads w + 1"
  by (auto simp add: startMonitoring_def generateMonitorId_def Date_now_def
      split: if_splits)

lemma CacheManager_get_miss:
  "mc_cache (cm_provider cm) (cm_keyPrefix cm @ key) = None \<Longrightarrow>
   (if cm_enabled cm then CacheManager_get cm key w else (None, cm, w)) = (None, cm, w)"
  by (simp add: CacheManager_get_def MemoryCacheProvider_get_def)

lemma CacheManager_get_hit:
  "mc_cache (cm_provider cm) (cm_keyPrefix cm @ key) = Some (r, e) \<Longrightarrow> cm_enabled cm \<Longrightarrow>
   w_clock w (w_reads w) \<le> e \<Longrightarrow>
   CacheManager_get cm key w = (Some r, cm, w\<lparr>w_reads := Suc (w_reads w)\<rparr>)"
  by (simp add: CacheManager_get_def MemoryCacheProvider_get_def Date_now_def)

lemma CacheManager_set_stores:
  "cm_enabled cm \<Longrightarrow> CacheManager_set cm key r None w = (cm1, w1) \<Longrightarrow>
   mc_cache (cm_provider cm1) (cm_keyPrefix cm @ key) = Some (r, w_clock w (w_reads w) + cache_ttl_ms cm)
   \<and> cm_enabled cm1 \<and> cm_keyPrefix cm1 = cm_keyPrefix cm
   \<and> w_clock w1 = w_clock w \<and> w_findAllCalls w1 = w_findAllCalls w
   \<and> w_reads w1 = Suc (w_reads w)"
  by (auto simp add: CacheManager_set_def MemoryCacheProvider_set_def Date_now_def Let_def
      cache_ttl_ms_def)

lemma execute_query_frame:
  assumes "execute_query b mid w = (Inr fr, b3, w5)"
  shows "aqb_cacheManager b3 = aqb_cacheManager b \<and> aqb_currentOptions b3 = aqb_currentOptions b
       \<and> aqb_model b3 = aqb_model b \<and> aqb_heap b3 = aqb_heap b
       \<and> w_clock w5 = w_clock w \<and> w_findAllCalls w5 = Suc (w_findAllCalls w)
       \<and> w_reads w5 = w_reads w + 2
       \<and> cacheHit_flag fr \<noteq> Some True"
proof -
  obtain b2 bq where bq: "buildQueryOptions b = (b2, bq)"
    by (cases "buildQueryOptions b")
  have b2: "b2 = b\<lparr>aqb_joins := aqb_joins b2\<rparr>"
    using bq by (rule buildQueryOptions_frame)
  have fields: "aqb_cacheManager b2 = aqb_cacheManager b" "aqb_currentOptions b2 = aqb_currentOptions b"
    "aqb_model b2 = aqb_model b" "aqb_heap b2 = aqb_heap b"
    by (subst b2, simp)+
  show ?thesis
    using assms fields
    by (auto simp add: execute_query_def bq Date_now_def Let_def
        split: sum.splits prod.splits
        dest: execute_result_frame execute_result_flag)
qed

lemma execute_finish_props:
  assumes "cm_enabled (aqb_cacheManager b)"
    and "execute_finish b key mid fr w = (r, b5, w7)"
    and "cacheHit_flag fr \<noteq> Some True"
  shows "mc_cache (cm_provider (aqb_cacheManager b5)) (cm_keyPrefix (aqb_cacheManager b) @ key)
           = Some (r, w_clock w (w_reads w) + cache_ttl_ms (aqb_cacheManager b))
       \<and> cm_enabled (aqb_cacheManager b5)
       \<and> cm_keyPrefix (aqb_cacheManager b5) = cm_keyPrefix (aqb_cacheManager b)
       \<and> aqb_currentOptions b5 = aqb_currentOptions b
       \<and> aqb_model b5 = aqb_model b
       \<and> w_clock w7 = w_clock w \<and> w_findAllCalls w7 = w_findAllCalls w
       \<and> w_reads w < w_reads w7 \<and> w_reads w7 \<le> w_reads w + 3
       \<and> r < length (aqb_heap b5)
       \<and> cacheHit_flag (aqb_heap b5 ! r) \<noteq> Some True"
proof -
  obtain cm2 w6 where set: "CacheManager_set (aqb_cacheManager b) key (length (aqb_heap b)) None w = (cm2, w6)"
    by (cases "CacheManager_set (aqb_cacheManager b) key (length (aqb_heap b)) None w")
  note st = CacheManager_set_stores [OF assms(1) set]
  obtain metrics pm1 w7a where en: "endMonitoring (aqb_performanceMonitor b) mid w6 = (metrics, pm1, w7a)"
    by (cases "endMonitoring (aqb_performanceMonitor b) mid w6") auto
  note ec = endMonitoring_clock [OF en]
  show ?thesis
    using assms st ec
    by (auto simp add: execute_finish_def Let_def set en cacheHit_flag_def nth_append
        split: option.splits)
qed

lemma generateCacheKey_cong:
  "aqb_model b1 = aqb_model b \<Longrightarrow> aqb_currentOptions b1 = aqb_currentOptions b \<Longrightarrow>
   generateCacheKey stringify b1 suffix = generateCacheKey stringify b suffix"
  by (simp add: generateCacheKey_def)

lemma execute_try_miss:
  assumes en: "cm_enabled (aqb_cacheManager b)"
    and none: "mc_cache (cm_provider (aqb_cacheManager b))
                 (cm_keyPrefix (aqb_cacheManager b) @ generateCacheKey stringify b []) = None"
    and ex: "execute_try stringify b mid w = (Inr r, b1, w1)"
  shows "(\<exists>k < w_reads w1. mc_cache (cm_provider (aqb_cacheManager b1))
                 (cm_keyPrefix (aqb_cacheManager b) @ generateCacheKey stringify b [])
               = Some (r, w_clock w k + cache_ttl_ms (aqb_cacheManager b)))
       \<and> w_reads w1 \<le> w_reads w + 5
       \<and> cm_enabled (aqb_cacheManager b1)
       \<and> cm_keyPrefix (aqb_cacheManager b1) = cm_keyPrefix (aqb_cacheManager b)
       \<and> aqb_currentOptions b1 = aqb_currentOptions b
       \<and> aqb_model b1 = aqb_model b
       \<and> w_clock w1 = w_clock w
       \<and> w_findAllCalls w1 = Suc (w_findAllCalls w)
       \<and> r < length (aqb_heap b1)
       \<and> cacheHit_flag (aqb_heap b1 ! r) \<noteq> Some True"
proof -
  have same: "b\<lparr>aqb_cacheManager := aqb_cacheManager b\<rparr> = b"
    by simp
  note ex1 = ex [unfolded execute_try_def Let_def CacheManager_get_miss [OF none]
      prod.case option.case same]
  obtain q b3 w5 where q: "execute_query b mid w = (q, b3, w5)"
    by (cases "execute_query b mid w") auto
  obtain fr where fr: "q = Inr fr"
    using ex1 q by (cases q) auto
  note qf = execute_query_frame [OF q [unfolded fr]]
  obtain r5 b5 w7 where fin:
    "execute_finish b3 (generateCacheKey stringify b []) mid fr w5 = (r5, b5, w7)"
    by (cases "execute_finish b3 (generateCacheKey stringify b []) mid fr w5") auto
  have res: "r5 = r" "b5 = b1" "w7 = w1"
    using ex1 by (simp_all add: q fr fin)
  have en3: "cm_enabled (aqb_cacheManager b3)"
    using en qf by simp
  note fp = execute_finish_props [OF en3 fin]
  show ?thesis
    using fp qf unfolding res by auto
qed

lemma execute_try_hit:
  assumes en: "cm_enabled (aqb_cacheManager b)"
    and hit: "mc_cache (cm_provider (aqb_cacheManager b))
                 (cm_keyPrefix (aqb_cacheManager b) @ generateCacheKey stringify b []) = Some (r, e)"
    and early: "w_clock w (w_reads w) \<le> e"
  shows "execute_try stringify b mid w =
           (Inr r,
            b\<lparr>aqb_performanceMonitor := recordCacheHit (aqb_performanceMonitor b) mid\<rparr>,
            w\<lparr>w_reads := Suc (w_reads w)\<rparr>)"
  by (simp add: execute_try_def Let_def en CacheManager_get_hit [OF hit en early])

lemma execute_first:
  assumes en: "cm_enabled (aqb_cacheManager b)"
    and none: "mc_cache (cm_provider (aqb_cacheManager b))
                 (cm_keyPrefix (aqb_cacheManager b) @ generateCacheKey stringify b []) = None"
    and ex: "execute stringify b w = (Inr r, b1, w1)"
  shows "(\<exists>k < w_reads w1. mc_cache (cm_provider (aqb_cacheManager b1))
                 (cm_keyPrefix (aqb_cacheManager b1) @ generateCacheKey stringify b1 [])
               = Some (r, w_clock w k + cache_ttl_ms (aqb_cacheManager b)))
       \<and> w_reads w1 \<le> w_reads w + 7
       \<and> cm_enabled (aqb_cacheManager b1)
       \<and> aqb_currentOptions b1 = aqb_currentOptions b
       \<and> w_clock w1 = w_clock w
       \<and> w_findAllCalls w1 = Suc (w_findAllCalls w)
       \<and> r < length (aqb_heap b1)
       \<and> cacheHit_flag (aqb_heap b1 ! r) \<noteq> Some True"
proof -
  define w0 where "w0 = w\<lparr>w_reads := Suc (w_reads w)\<rparr>"
  define ctx where "ctx = \<lparr> ctx_method = ''findAll'', ctx_modelName = model_name (aqb_model b),
      ctx_startTime = w_clock w (w_reads w), ctx_requestId = aqb_requestId b \<rparr>"
  obtain mid pm1 wm where sm: "startMonitoring (aqb_performanceMonitor b) ctx w0 = (mid, pm1, wm)"
    by (cases "startMonitoring (aqb_performanceMonitor b) ctx w0") auto
  note sc = startMonitoring_clock [OF sm]
  define bm where "bm = b\<lparr>aqb_performanceMonitor := pm1\<rparr>"
  obtain t bt wt where tr: "execute_try stringify bm mid wm = (t, bt, wt)"
    by (cases "execute_try stringify bm mid wm") auto
  have ex1: "(case (t, bt, wt) of
        (Inr r, b1, w2) \<Rightarrow> (Inr r, b1, w2)
      | (Inl e, b1, w2) \<Rightarrow>
          (case endMonitoring (aqb_performanceMonitor b1) mid w2 of
             (metrics, pm2, w3) \<Rightarrow>
               (Inl (QueryError ''ADVANCED_QUERY_ERROR'' e),
                b1\<lparr>aqb_performanceMonitor := pm2\<rparr>, w3))) = (Inr r, b1, w1)"
    using ex by (simp add: execute_def Date_now_def Let_def w0_def [symmetric] ctx_def [symmetric]
        sm bm_def [symmetric] tr)
  have t: "t = Inr r" "bt = b1" "wt = w1"
    using ex1 by (cases t; auto split: prod.splits)+
  have key: "generateCacheKey stringify bm [] = generateCacheKey stringify b []"
    by (simp add: generateCacheKey_def bm_def)
  have enm: "cm_enabled (aqb_cacheManager bm)"
    using en by (simp add: bm_def)
  have nonem: "mc_cache (cm_provider (aqb_cacheManager bm))
                 (cm_keyPrefix (aqb_cacheManager bm) @ generateCacheKey stringify bm []) = None"
    using none by (simp add: key) (simp add: bm_def)
  note m = execute_try_miss [OF enm nonem tr [unfolded t]]
  have key1: "generateCacheKey stringify b1 [] = generateCacheKey stringify b []"
    using m by (simp add: generateCacheKey_def bm_def)
  show ?thesis
    using m sc unfolding key key1 by (auto simp add: bm_def w0_def)
qed

lemma execute_second:
  assumes en: "cm_enabled (aqb_cacheManager b)"
    and hit: "mc_cache (cm_provider (aqb_cacheManager b))
                 (cm_keyPrefix (aqb_cacheManager b) @ generateCacheKey stringify b []) = Some (r, e)"
    and early: "\<forall>k \<le> w_reads w + 2. w_clock w k \<le> e"
    and ex: "execute stringify b w = (res, b2, w2)"
  shows "res = Inr r \<and> aqb_heap b2 = aqb_heap b
       \<and> w_findAllCalls w2 = w_findAllCalls w \<and> w_countCalls w2 = w_countCalls w"
proof -
  define w0 where "w0 = w\<lparr>w_reads := Suc (w_reads w)\<rparr>"
  define ctx where "ctx = \<lparr> ctx_method = ''findAll'', ctx_modelName = model_name (aqb_model b),
      ctx_startTime = w_clock w (w_reads w), ctx_requestId = aqb_requestId b \<rparr>"
  obtain mid pm1 wm where sm: "startMonitoring (aqb_performanceMonitor b) ctx w0 = (mid, pm1, wm)"
    by (cases "startMonitoring (aqb_performanceMonitor b) ctx w0") auto
  note sc = startMonitoring_clock [OF sm]
  define bm where "bm = b\<lparr>aqb_performanceMonitor := pm1\<rparr>"
  have key: "generateCacheKey stringify bm [] = generateCacheKey stringify b []"
    by (simp add: generateCacheKey_def bm_def)
  have enm: "cm_enabled (aqb_cacheManager bm)"
    using en by (simp add: bm_def)
  have hitm: "mc_cache (cm_provider (aqb_cacheManager bm))
                 (cm_keyPrefix (aqb_cacheManager bm) @ generateCacheKey stringify bm []) = Some (r, e)"
    using hit by (simp add: key) (simp add: bm_def)
  have earlym: "w_clock wm (w_reads wm) \<le> e"
    using early sc by (simp add: w0_def)
  note h = execute_try_hit [OF enm hitm earlym, of mid]
  show ?thesis
    using ex sc
    by (auto simp add: execute_def Date_now_def Let_def w0_def [symmetric] ctx_def [symmetric]
        sm bm_def [symmetric] h) (simp_all add: bm_def w0_def)
qed


lemma string_of_int_digit [simp]:
  "string_of_int 0 = ''0''" "string_of_int 1 = ''1''" "string_of_int 8 = ''8''"
  by (simp_all add: string_of_int_def string_of_nat.simps)

lemma first_run_result: "fst first_run = Inr 0"
  by (simp add: first_run_def execute_def execute_try_def execute_query_def execute_finish_def
      execute_result_def buildQueryOptions_def handle_pagination_def handle_filters_def
      handle_sorting_def handle_joins_def handle_other_options_def
      fresh_builder_def new_AdvancedQueryBuilder_def empty_options_def
      new_CacheManager_def new_MemoryCacheProvider_def new_PerformanceMonitor_def
      caching_config_def users_model_def world_ticking_def stringify_plain_def
      Date_now_def startMonitoring_def generateMonitorId_def endMonitoring_def
      recordQueryExecution_def CacheManager_get_def CacheManager_set_def
      MemoryCacheProvider_get_def MemoryCacheProvider_set_def generateCacheKey_def
      generateKey_def int_or_def Let_def)

lemmas run_defs =
  execute_def execute_try_def execute_query_def execute_finish_def
      execute_result_def buildQueryOptions_def handle_pagination_def handle_filters_def
      handle_sorting_def handle_joins_def handle_other_options_def
      fresh_builder_def new_AdvancedQueryBuilder_def empty_options_def
      new_CacheManager_def new_MemoryCacheProvider_def new_PerformanceMonitor_def
      caching_config_def users_model_def world_ticking_def stringify_plain_def
      Date_now_def startMonitoring_def generateMonitorId_def endMonitoring_def
      recordQueryExecution_def CacheManager_get_def CacheManager_set_def
      MemoryCacheProvider_get_def MemoryCacheProvider_set_def generateCacheKey_def
      generateKey_def int_or_def Let_def

lemma first_run_envelope:
  "aqb_heap (fst (snd first_run)) =
     [\<lparr> qr_data = [user_row], qr_count = None, qr_pagination = None,
        qr_performance = Some \<lparr> perf_executionTime = - 1, perf_queryCount = 1,
                                perf_cacheHit = False \<rparr> \<rparr>]"
  by (simp add: first_run_def run_defs)

lemma first_run_pair:
  "execute stringify_plain fresh_builder world_ticking =
     (Inr 0, fst (snd first_run), snd (snd first_run))"
  using first_run_result by (simp add: first_run_def prod_eq_iff)

lemma fresh_builder_cache:
  "cm_enabled (aqb_cacheManager fresh_builder)"
  "mc_cache (cm_provider (aqb_cacheManager fresh_builder)) key = None"
  "cache_ttl_ms (aqb_cacheManager fresh_builder) = 300000"
  by (simp_all add: fresh_builder_def new_AdvancedQueryBuilder_def new_CacheManager_def
      new_MemoryCacheProvider_def caching_config_def cache_ttl_ms_def int_or_def)

lemma ticking_window:
  "\<forall>i j. i < w_reads world_ticking + 10 \<and> j < w_reads world_ticking + 10 \<longrightarrow>
     w_clock world_ticking j \<le> w_clock world_ticking i + cache_ttl_ms (aqb_cacheManager fresh_builder)"
  by (simp add: fresh_builder_cache world_ticking_def)



end
